theory Spec2Isabelle
  imports Main
begin

section \<open>The tiny MUD server: a shallow embedding of tinymudserver.cpp\<close>

text \<open>
  The server is a single-threaded C++ program. Its global registries (player list, room
  map, message map, direction set, bad-name set), the player files on disk and the console
  are gathered in one record \<open>world\<close> that every function takes and returns. A player is
  addressed by its position in the player list (the source uses the pointer). A thrown
  \<open>runtime_error\<close> is a value: a handler returns \<open>(Some message, state at the throw)\<close>,
  or \<open>(None, state)\<close> when it returns normally; the outer \<open>option\<close> is \<open>None\<close> when
  the call does not return at all (unbounded recursion, a loop that never exits).
\<close>

subsection \<open>Characters and strings (the C locale)\<close>

definition isupper_c :: "char \<Rightarrow> bool" where
  "isupper_c c = (65 \<le> (of_char c :: nat) \<and> (of_char c :: nat) \<le> 90)"

definition islower_c :: "char \<Rightarrow> bool" where
  "islower_c c = (97 \<le> (of_char c :: nat) \<and> (of_char c :: nat) \<le> 122)"

definition isdigit_c :: "char \<Rightarrow> bool" where
  "isdigit_c c = (48 \<le> (of_char c :: nat) \<and> (of_char c :: nat) \<le> 57)"

definition isalnum_c :: "char \<Rightarrow> bool" where
  "isalnum_c c = (isupper_c c \<or> islower_c c \<or> isdigit_c c)"

text \<open>\<open>isspace\<close>: space, and the control characters 9 to 13 (tab, newline, vertical tab,
  form feed, carriage return).\<close>

definition isspace_c :: "char \<Rightarrow> bool" where
  "isspace_c c = ((of_char c :: nat) = 32 \<or> (9 \<le> (of_char c :: nat) \<and> (of_char c :: nat) \<le> 13))"

definition tolower_c :: "char \<Rightarrow> char" where
  "tolower_c c = (if isupper_c c then char_of ((of_char c :: nat) + 32) else c)"

definition toupper_c :: "char \<Rightarrow> char" where
  "toupper_c c = (if islower_c c then char_of ((of_char c :: nat) - 32) else c)"

text \<open>\<open>tolower (const string &)\<close>.\<close>

definition tolower_s :: "string \<Rightarrow> string" where
  "tolower_s s = map tolower_c s"

text \<open>\<open>fCapitals\<close> is a functor with the state \<open>bUpper\<close>, run over the string by
  \<open>transform\<close>; \<open>tocapitals\<close> starts it with \<open>bUpper = true\<close>.\<close>

fun fCapitals :: "bool \<Rightarrow> string \<Rightarrow> string" where
  "fCapitals bUpper [] = []"
| "fCapitals bUpper (c # cs) =
     (if bUpper then toupper_c c else tolower_c c) # fCapitals (\<not> isalnum_c c) cs"

definition tocapitals :: "string \<Rightarrow> string" where
  "tocapitals s = fCapitals True s"

text \<open>\<open>ciLess\<close>: \<open>lexicographical_compare\<close> under \<open>tolower (c1) < tolower (c2)\<close>.\<close>

definition compare_less :: "char \<Rightarrow> char \<Rightarrow> bool" where
  "compare_less c1 c2 = ((of_char (tolower_c c1) :: nat) < of_char (tolower_c c2))"

fun ciLess :: "string \<Rightarrow> string \<Rightarrow> bool" where
  "ciLess [] [] = False"
| "ciLess [] (y # ys) = True"
| "ciLess (x # xs) [] = False"
| "ciLess (x # xs) (y # ys) =
     (if compare_less x y then True
      else if compare_less y x then False
      else ciLess xs ys)"

text \<open>\<open>ciStringEqual\<close> (\<open>ciEqualTo\<close>): \<open>mismatch\<close> under \<open>tolower (c1) == tolower (c2)\<close>, and
  both iterators at the end. (When \<open>s2\<close> is the shorter string the source compares against
  its terminating NUL; a NUL byte inside \<open>s1\<close> at that place is not modelled, the strings
  then count as different.)\<close>

fun ciStringEqual :: "string \<Rightarrow> string \<Rightarrow> bool" where
  "ciStringEqual [] [] = True"
| "ciStringEqual [] (y # ys) = False"
| "ciStringEqual (x # xs) [] = False"
| "ciStringEqual (x # xs) (y # ys) = (tolower_c x = tolower_c y \<and> ciStringEqual xs ys)"

text \<open>\<open>Trim\<close> with the default \<open>SPACES = " \t\r\n"\<close>: nothing is left when every
  character is a space; otherwise the string is cut after the last and before the first
  character that is not one.\<close>

definition SPACES :: "string" where
  "SPACES = [CHR '' '', CHR 0x09, CHR 0x0D, CHR 0x0A]"

definition Trim :: "string \<Rightarrow> string" where
  "Trim str =
     (if list_all (\<lambda>c. c \<in> set SPACES) str then []
      else rev (dropWhile (\<lambda>c. c \<in> set SPACES) (rev (dropWhile (\<lambda>c. c \<in> set SPACES) str))))"

subsection \<open>Decimal output and input of \<open>int\<close>\<close>

definition INT_MAX :: "int" where
  "INT_MAX = 2147483647"

definition INT_MIN :: "int" where
  "INT_MIN = - 2147483648"

definition digit_char :: "nat \<Rightarrow> char" where
  "digit_char d = char_of (48 + d)"

fun digits_of :: "nat \<Rightarrow> string" where
  "digits_of n = (if n < 10 then [digit_char n] else digits_of (n div 10) @ [digit_char (n mod 10)])"

declare digits_of.simps [simp del]

text \<open>\<open>ostream << int\<close>.\<close>

definition show_int :: "int \<Rightarrow> string" where
  "show_int i = (if i < 0 then CHR ''-'' # digits_of (nat (- i)) else digits_of (nat i))"

definition digits_val :: "string \<Rightarrow> int" where
  "digits_val ds = foldl (\<lambda>a c. 10 * a + (int (of_char c) - 48)) 0 ds"

subsection \<open>Input streams\<close>

text \<open>An \<open>istream\<close> is the unread characters and the two state bits the source depends
  on. A stream is good when neither bit is set.\<close>

record istream =
  rest :: string
  eofbit :: bool
  failbit :: bool

definition istringstream :: "string \<Rightarrow> istream" where
  "istringstream str = \<lparr>rest = str, eofbit = False, failbit = False\<rparr>"

definition good :: "istream \<Rightarrow> bool" where
  "good is = (\<not> eofbit is \<and> \<not> failbit is)"

text \<open>The sentry every extraction starts with. On a stream that is not good it sets
  \<open>failbit\<close> and fails. With \<open>noskipws = false\<close> it skips white space first, and fails with
  \<open>eofbit\<close> and \<open>failbit\<close> set when that reaches the end.\<close>

definition sentry :: "bool \<Rightarrow> istream \<Rightarrow> bool \<times> istream" where
  "sentry noskipws is =
     (if \<not> good is then (False, is\<lparr>failbit := True\<rparr>)
      else if noskipws then (True, is)
      else (let r = dropWhile isspace_c (rest is)
            in if r = [] then (False, is\<lparr>rest := [], eofbit := True, failbit := True\<rparr>)
               else (True, is\<lparr>rest := r\<rparr>)))"

text \<open>\<open>is >> str\<close> for a string: the target keeps its old value when the sentry fails;
  otherwise it is erased and receives the characters up to the next white space, and
  \<open>eofbit\<close> is set when the end of the stream stops the extraction.\<close>

definition get_string :: "string \<Rightarrow> istream \<Rightarrow> string \<times> istream" where
  "get_string old is =
     (case sentry False is of
        (False, is1) \<Rightarrow> (old, is1)
      | (True, is1) \<Rightarrow>
          (let tok = takeWhile (\<lambda>c. \<not> isspace_c c) (rest is1);
               r = dropWhile (\<lambda>c. \<not> isspace_c c) (rest is1)
           in (tok, is1\<lparr>rest := r, eofbit := (r = [])\<rparr>)))"

text \<open>\<open>is >> ws\<close>: skips white space; reaching the end sets \<open>eofbit\<close> only.\<close>

definition get_ws :: "istream \<Rightarrow> istream" where
  "get_ws is =
     (case sentry True is of
        (False, is1) \<Rightarrow> is1
      | (True, is1) \<Rightarrow>
          (let r = dropWhile isspace_c (rest is1)
           in is1\<lparr>rest := r, eofbit := (r = [])\<rparr>))"

text \<open>\<open>getline (is, str)\<close>: the characters up to the next newline, which is consumed and
  dropped. Reaching the end sets \<open>eofbit\<close>, and \<open>failbit\<close> too when nothing was extracted.\<close>

definition getline :: "string \<Rightarrow> istream \<Rightarrow> string \<times> istream" where
  "getline old is =
     (case sentry True is of
        (False, is1) \<Rightarrow> (old, is1)
      | (True, is1) \<Rightarrow>
          (let line = takeWhile (\<lambda>c. c \<noteq> CHR 0x0A) (rest is1)
           in case dropWhile (\<lambda>c. c \<noteq> CHR 0x0A) (rest is1) of
                [] \<Rightarrow> (line, is1\<lparr>rest := [], eofbit := True, failbit := (line = [])\<rparr>)
              | _ # r \<Rightarrow> (line, is1\<lparr>rest := r\<rparr>)))"

text \<open>\<open>is.ignore (numeric_limits<int>::max (), '\n')\<close>: skips to the end of the line.
  (The count limit of \<open>2^31 - 1\<close> characters is not modelled.)\<close>

definition ignore_line :: "istream \<Rightarrow> istream" where
  "ignore_line is =
     (case sentry True is of
        (False, is1) \<Rightarrow> is1
      | (True, is1) \<Rightarrow>
          (case dropWhile (\<lambda>c. c \<noteq> CHR 0x0A) (rest is1) of
             [] \<Rightarrow> is1\<lparr>rest := [], eofbit := True\<rparr>
           | _ # r \<Rightarrow> is1\<lparr>rest := r\<rparr>))"

text \<open>\<open>is >> n\<close> for an \<open>int\<close> (C++11 \<open>num_get\<close>, base ten): an optional sign and the
  digits that follow are consumed. No digit: the value is zero and \<open>failbit\<close> is set.
  A value outside the 32-bit range: the nearest bound is stored and \<open>failbit\<close> is set.
  The target keeps its old value when the sentry fails.\<close>

definition get_int :: "int \<Rightarrow> istream \<Rightarrow> int \<times> istream" where
  "get_int old is =
     (case sentry False is of
        (False, is1) \<Rightarrow> (old, is1)
      | (True, is1) \<Rightarrow>
          (let neg = (case rest is1 of [] \<Rightarrow> False | c # cs \<Rightarrow> c = CHR ''-'');
               r1 = (case rest is1 of [] \<Rightarrow> []
                     | c # cs \<Rightarrow> if c = CHR ''-'' \<or> c = CHR ''+'' then cs else c # cs);
               ds = takeWhile isdigit_c r1;
               r2 = dropWhile isdigit_c r1;
               v = (if neg then - digits_val ds else digits_val ds);
               is2 = is1\<lparr>rest := r2, eofbit := (r2 = [])\<rparr>
           in if ds = [] then (0, is2\<lparr>failbit := True\<rparr>)
              else if INT_MAX < v then (INT_MAX, is2\<lparr>failbit := True\<rparr>)
              else if v < INT_MIN then (INT_MIN, is2\<lparr>failbit := True\<rparr>)
              else (v, is2)))"

subsection \<open>Case-independent sets: \<open>set<string, ciLess>\<close>\<close>

text \<open>The set is the list of its elements in iteration order (ascending under \<open>ciLess\<close>).
  Two keys are equivalent when neither is less than the other.\<close>

definition ci_equiv :: "string \<Rightarrow> string \<Rightarrow> bool" where
  "ci_equiv a b = (\<not> ciLess a b \<and> \<not> ciLess b a)"

text \<open>\<open>st.find (x) != st.end ()\<close>.\<close>

definition ci_find :: "string \<Rightarrow> string list \<Rightarrow> bool" where
  "ci_find x st = list_ex (ci_equiv x) st"

text \<open>\<open>st.insert (x)\<close>: nothing happens when an equivalent key is there.\<close>

fun ci_insert :: "string \<Rightarrow> string list \<Rightarrow> string list" where
  "ci_insert x [] = [x]"
| "ci_insert x (y # ys) =
     (if ciLess x y then x # y # ys
      else if ciLess y x then y # ci_insert x ys
      else y # ys)"

text \<open>\<open>st.erase (x)\<close>: removes the key equivalent to \<open>x\<close>.\<close>

fun ci_erase :: "string \<Rightarrow> string list \<Rightarrow> string list" where
  "ci_erase x [] = []"
| "ci_erase x (y # ys) = (if ci_equiv x y then ys else y # ci_erase x ys)"

subsection \<open>Configuration constants\<close>

definition PROMPT :: "string" where
  "PROMPT = ''> ''"

definition INITIAL_ROOM :: "int" where
  "INITIAL_ROOM = 1000"

definition MAX_PASSWORD_ATTEMPTS :: "int" where
  "MAX_PASSWORD_ATTEMPTS = 3"

definition NO_SOCKET :: "int" where
  "NO_SOCKET = - 1"

definition PLAYER_DIR :: "string" where
  "PLAYER_DIR = ''./players/''"

definition PLAYER_EXT :: "string" where
  "PLAYER_EXT = ''.player''"

definition valid_player_name :: "string" where
  "valid_player_name = ''ABCDEFGHIJKLMNOPQRSTUVWXYZabcdefghijklmnopqrstuvwxyz0123456789_-''"

text \<open>\<open>str.find_first_not_of (valid_player_name) != string::npos\<close>.\<close>

definition has_invalid_char :: "string \<Rightarrow> bool" where
  "has_invalid_char str = list_ex (\<lambda>c. c \<notin> set valid_player_name) str"

subsection \<open>Players, rooms and the world\<close>

datatype tConnectionStates =
    eAwaitingName
  | eAwaitingPassword
  | eAwaitingNewName
  | eAwaitingNewPassword
  | eConfirmPassword
  | ePlaying

text \<open>Class \<open>tPlayer\<close>. The socket member \<open>s\<close> is the field \<open>sock\<close>; \<open>flags\<close> is a
  \<open>set<string, ciLess>\<close>.\<close>

record tPlayer =
  sock :: int
  port :: int
  outbuf :: string
  inbuf :: string
  address :: string
  connstate :: tConnectionStates
  prompt :: string
  playername :: string
  password :: string
  badPasswordCount :: int
  room :: int
  closing :: bool
  flags :: "string list"

text \<open>Class \<open>tRoom\<close>; \<open>exits\<close> is a \<open>map<string, int>\<close>, held as its entries in iteration
  order. Its keys are compared exactly (the map has the default comparison).\<close>

record tRoom =
  description :: string
  exits :: "(string \<times> int) list"

text \<open>The globals of the source, the player files (by path), the paths that cannot be
  opened for writing, and the lines written to \<open>cout\<close> and \<open>cerr\<close>.\<close>

record world =
  playerlist :: "tPlayer list"
  roommap :: "(int \<times> tRoom) list"
  messagemap :: "(string \<times> string) list"
  directionset :: "string list"
  badnameset :: "string list"
  bStopNow :: bool
  playerfiles :: "string \<rightharpoonup> string"
  unwritable :: "string \<Rightarrow> bool"
  console :: "string list"

type_synonym result = "(string option \<times> world) option"

type_synonym tHandler = "nat \<Rightarrow> istream \<Rightarrow> world \<Rightarrow> result"

definition pl :: "world \<Rightarrow> nat \<Rightarrow> tPlayer" where
  "pl w p = playerlist w ! p"

definition upd :: "nat \<Rightarrow> (tPlayer \<Rightarrow> tPlayer) \<Rightarrow> world \<Rightarrow> world" where
  "upd p f w = w\<lparr>playerlist := (playerlist w)[p := f (playerlist w ! p)]\<rparr>"

text \<open>\<open>*p << text\<close>.\<close>

definition out :: "nat \<Rightarrow> string \<Rightarrow> world \<Rightarrow> world" where
  "out p txt w = upd p (\<lambda>q. q\<lparr>outbuf := outbuf q @ txt\<rparr>) w"

text \<open>\<open>cout << line << endl\<close>, \<open>cerr << line << endl\<close>, \<open>perror (line)\<close>.\<close>

definition log_line :: "string \<Rightarrow> world \<Rightarrow> world" where
  "log_line line w = w\<lparr>console := console w @ [line]\<rparr>"

definition Init :: "tPlayer \<Rightarrow> tPlayer" where
  "Init q = q\<lparr>connstate := eAwaitingName, room := INITIAL_ROOM, flags := [],
     prompt := ''Enter your name, or '' @ [CHR 0x27] @ ''new'' @ [CHR 0x27]
               @ '' to create a new character ...  ''\<rparr>"

definition Connected :: "tPlayer \<Rightarrow> bool" where
  "Connected q = (sock q \<noteq> NO_SOCKET)"

definition IsPlaying :: "tPlayer \<Rightarrow> bool" where
  "IsPlaying q = (Connected q \<and> connstate q = ePlaying \<and> \<not> closing q)"

definition PendingOutput :: "tPlayer \<Rightarrow> bool" where
  "PendingOutput q = (outbuf q \<noteq> [])"

definition ClosePlayer :: "tPlayer \<Rightarrow> tPlayer" where
  "ClosePlayer q = q\<lparr>closing := True\<rparr>"

definition HaveFlag :: "string \<Rightarrow> tPlayer \<Rightarrow> bool" where
  "HaveFlag name q = ci_find name (flags q)"

text \<open>\<open>NeedFlag\<close> and \<open>NeedNoFlag\<close> return the error they throw, if any.\<close>

definition NeedFlag :: "string \<Rightarrow> tPlayer \<Rightarrow> string option" where
  "NeedFlag name q = (if \<not> HaveFlag name q then Some ''You are not permitted to do that.'' else None)"

definition NeedNoFlag :: "string \<Rightarrow> tPlayer \<Rightarrow> string option" where
  "NeedNoFlag name q = (if HaveFlag name q then Some ''You are not permitted to do that.'' else None)"

text \<open>\<open>find_if\<close>: the position of the first element that satisfies the predicate.\<close>

fun find_if :: "('a \<Rightarrow> bool) \<Rightarrow> 'a list \<Rightarrow> nat option" where
  "find_if P [] = None"
| "find_if P (x # xs) = (if P x then Some 0 else map_option Suc (find_if P xs))"

definition findPlayerName :: "string \<Rightarrow> tPlayer \<Rightarrow> bool" where
  "findPlayerName name q = (IsPlaying q \<and> ciStringEqual (playername q) name)"

definition FindPlayer :: "string \<Rightarrow> world \<Rightarrow> nat option" where
  "FindPlayer name w = find_if (findPlayerName name) (playerlist w)"

definition FindRoom :: "int \<Rightarrow> world \<Rightarrow> string + tRoom" where
  "FindRoom vnum w =
     (case map_of (roommap w) vnum of
        None \<Rightarrow> Inl (''Room number '' @ show_int vnum @ '' does not exist.'')
      | Some r \<Rightarrow> Inr r)"

text \<open>\<open>messagemap [key]\<close>: a \<open>map<string, string, ciLess>\<close>; a missing key reads as the
  empty string (the empty entry that \<open>operator[]\<close> inserts for it is not kept here: a later
  read gives the empty string either way).\<close>

definition message_of :: "string \<Rightarrow> world \<Rightarrow> string" where
  "message_of key w =
     (case find (\<lambda>kv. ci_equiv (fst kv) key) (messagemap w) of
        None \<Rightarrow> []
      | Some kv \<Rightarrow> snd kv)"

subsection \<open>Helpers of the command handlers\<close>

definition GetMessage :: "istream \<Rightarrow> string \<Rightarrow> string + string" where
  "GetMessage sArgs noMessageError =
     (let (message, is1) = getline [] (get_ws sArgs)
      in if message = [] then Inl noMessageError else Inr message)"

definition GetFlag :: "istream \<Rightarrow> string \<Rightarrow> string + (string \<times> istream)" where
  "GetFlag sArgs noFlagError =
     (let (flag, is1) = get_string [] (get_ws sArgs)
      in if flag = [] then Inl noFlagError
         else if has_invalid_char flag then Inl ''Flag name not valid.''
         else Inr (flag, is1))"

text \<open>\<open>tPlayer::GetPlayer\<close>, called on player \<open>p\<close>.\<close>

definition GetPlayer :: "nat \<Rightarrow> istream \<Rightarrow> string \<Rightarrow> bool \<Rightarrow> world \<Rightarrow> string + (nat \<times> istream)" where
  "GetPlayer p args noNameMessage notme w =
     (let (name, is1) = get_string [] args
      in if name = [] then Inl noNameMessage
         else (case (if ciStringEqual name ''me'' \<or> ciStringEqual name ''self'' then Some p
                     else FindPlayer name w) of
                 None \<Rightarrow> Inl (''Player '' @ tocapitals name @ '' is not connected.'')
               | Some t \<Rightarrow>
                   if notme \<and> t = p then Inl ''You cannot do that to yourself.''
                   else Inr (t, is1)))"

definition NoMore :: "istream \<Rightarrow> string option" where
  "NoMore sArgs =
     (let (sLine, is1) = getline [] sArgs
      in if sLine \<noteq> [] then Some (''Unexpected input: '' @ sLine) else None)"

subsection \<open>Broadcast\<close>

text \<open>The functor \<open>sendToPlayer\<close> applied to the player at position \<open>i\<close>; \<open>except\<close> is
  \<open>None\<close> for the null pointer, and room \<open>0\<close> stands for no room restriction.\<close>

definition sendToPlayer :: "string \<Rightarrow> nat option \<Rightarrow> int \<Rightarrow> nat \<Rightarrow> tPlayer \<Rightarrow> tPlayer" where
  "sendToPlayer message except r i q =
     (if IsPlaying q \<and> Some i \<noteq> except \<and> (r = 0 \<or> room q = r)
      then q\<lparr>outbuf := outbuf q @ message\<rparr> else q)"

definition SendToAll :: "string \<Rightarrow> nat option \<Rightarrow> int \<Rightarrow> world \<Rightarrow> world" where
  "SendToAll message ExceptThis InRoom w =
     w\<lparr>playerlist := map (\<lambda>iq. sendToPlayer message ExceptThis InRoom (fst iq) (snd iq))
                        (zip [0 ..< length (playerlist w)] (playerlist w))\<rparr>"

subsection \<open>Commands that do not move a player\<close>

definition DoQuit :: "nat \<Rightarrow> istream \<Rightarrow> world \<Rightarrow> string option \<times> world" where
  "DoQuit p sArgs w =
     (case NoMore sArgs of
        Some e \<Rightarrow> (Some e, w)
      | None \<Rightarrow>
          (let w1 = (if connstate (pl w p) = ePlaying
                     then SendToAll (''Player '' @ playername (pl w p) @ '' has left the game.\<newline>'')
                            (Some p) 0
                            (log_line (''Player '' @ playername (pl w p) @ '' has left the game.'')
                               (out p ''See you next time!\<newline>'' w))
                     else w)
           in (None, upd p ClosePlayer w1)))"

text \<open>The loop of \<open>DoLook\<close> over the player list: the text so far and the counter
  \<open>iOthers\<close>.\<close>

definition look_other :: "nat \<Rightarrow> int \<Rightarrow> string \<times> nat \<Rightarrow> nat \<times> tPlayer \<Rightarrow> string \<times> nat" where
  "look_other p r acc iq =
     (if fst iq \<noteq> p \<and> IsPlaying (snd iq) \<and> room (snd iq) = r
      then (fst acc @ (if snd acc = 0 then ''You also see '' else '', '') @ playername (snd iq),
            snd acc + 1)
      else acc)"

definition DoLook :: "nat \<Rightarrow> istream \<Rightarrow> world \<Rightarrow> string option \<times> world" where
  "DoLook p sArgs w =
     (case NoMore sArgs of
        Some e \<Rightarrow> (Some e, w)
      | None \<Rightarrow>
          (case FindRoom (room (pl w p)) w of
             Inl e \<Rightarrow> (Some e, w)
           | Inr r \<Rightarrow>
               (let w1 = out p (description r) w;
                    w2 = (if exits r \<noteq> []
                          then out p (''Exits: '' @ concat (map (\<lambda>e. fst e @ '' '') (exits r))
                                      @ ''\<newline>'') w1
                          else w1);
                    others = foldl (look_other p (room (pl w2 p))) ([], 0)
                               (zip [0 ..< length (playerlist w2)] (playerlist w2));
                    w3 = out p (fst others) w2
                in (None, if snd others \<noteq> 0 then out p ''.\<newline>'' w3 else w3))))"

definition DoSay :: "nat \<Rightarrow> istream \<Rightarrow> world \<Rightarrow> string option \<times> world" where
  "DoSay p sArgs w =
     (case NeedNoFlag ''gagged'' (pl w p) of
        Some e \<Rightarrow> (Some e, w)
      | None \<Rightarrow>
          (case GetMessage sArgs ''Say what?'' of
             Inl e \<Rightarrow> (Some e, w)
           | Inr what \<Rightarrow>
               (let w1 = out p (''You say, \"'' @ what @ ''\"\<newline>'') w
                in (None, SendToAll (playername (pl w1 p) @ '' says, \"'' @ what @ ''\"\<newline>'')
                            (Some p) (room (pl w1 p)) w1))))"

definition DoTell :: "nat \<Rightarrow> istream \<Rightarrow> world \<Rightarrow> string option \<times> world" where
  "DoTell p sArgs w =
     (case NeedNoFlag ''gagged'' (pl w p) of
        Some e \<Rightarrow> (Some e, w)
      | None \<Rightarrow>
          (case GetPlayer p sArgs ''Tell whom?'' True w of
             Inl e \<Rightarrow> (Some e, w)
           | Inr (ptarget, is1) \<Rightarrow>
               (case GetMessage is1 (''Tell '' @ playername (pl w p) @ '' what?'') of
                  Inl e \<Rightarrow> (Some e, w)
                | Inr what \<Rightarrow>
                    (let w1 = out p (''You tell '' @ playername (pl w p) @ '', \"'' @ what
                                     @ ''\"\<newline>'') w
                     in (None, out ptarget (playername (pl w1 p) @ '' tells you, \"'' @ what
                                            @ ''\"\<newline>'') w1)))))"

definition DoSetFlag :: "nat \<Rightarrow> istream \<Rightarrow> world \<Rightarrow> string option \<times> world" where
  "DoSetFlag p sArgs w =
     (case NeedFlag ''can_setflag'' (pl w p) of
        Some e \<Rightarrow> (Some e, w)
      | None \<Rightarrow>
          (case GetPlayer p sArgs ''Usage: setflag <who> <flag>'' False w of
             Inl e \<Rightarrow> (Some e, w)
           | Inr (ptarget, is1) \<Rightarrow>
               (case GetFlag is1 ''Set which flag?'' of
                  Inl e \<Rightarrow> (Some e, w)
                | Inr (flag, is2) \<Rightarrow>
                    (case NoMore is2 of
                       Some e \<Rightarrow> (Some e, w)
                     | None \<Rightarrow>
                         if ci_find flag (flags (pl w ptarget)) then (Some ''Flag already set.'', w)
                         else (let w1 = upd ptarget (\<lambda>q. q\<lparr>flags := ci_insert flag (flags q)\<rparr>) w
                               in (None, out p (''You set the flag '' @ [CHR 0x27] @ flag
                                                @ [CHR 0x27] @ '' for '' @ playername (pl w1 ptarget)
                                                @ ''\<newline>'') w1))))))"

definition DoClearFlag :: "nat \<Rightarrow> istream \<Rightarrow> world \<Rightarrow> string option \<times> world" where
  "DoClearFlag p sArgs w =
     (case NeedFlag ''can_setflag'' (pl w p) of
        Some e \<Rightarrow> (Some e, w)
      | None \<Rightarrow>
          (case GetPlayer p sArgs ''Usage: clearflag <who> <flag>'' False w of
             Inl e \<Rightarrow> (Some e, w)
           | Inr (ptarget, is1) \<Rightarrow>
               (case GetFlag is1 ''Clear which flag?'' of
                  Inl e \<Rightarrow> (Some e, w)
                | Inr (flag, is2) \<Rightarrow>
                    (case NoMore is2 of
                       Some e \<Rightarrow> (Some e, w)
                     | None \<Rightarrow>
                         if \<not> ci_find flag (flags (pl w ptarget)) then (Some ''Flag not set.'', w)
                         else (let w1 = upd ptarget (\<lambda>q. q\<lparr>flags := ci_erase flag (flags q)\<rparr>) w
                               in (None, out p (''You clear the flag '' @ [CHR 0x27] @ flag
                                                @ [CHR 0x27] @ '' for '' @ playername (pl w1 ptarget)
                                                @ ''\<newline>'') w1))))))"

definition DoShutdown :: "nat \<Rightarrow> istream \<Rightarrow> world \<Rightarrow> string option \<times> world" where
  "DoShutdown p sArgs w =
     (case NoMore sArgs of
        Some e \<Rightarrow> (Some e, w)
      | None \<Rightarrow>
          (case NeedFlag ''can_shutdown'' (pl w p) of
             Some e \<Rightarrow> (Some e, w)
           | None \<Rightarrow>
               (None, (SendToAll (playername (pl w p) @ '' shuts down the game\<newline>'') None 0 w)
                        \<lparr>bStopNow := True\<rparr>)))"

definition DoHelp :: "nat \<Rightarrow> istream \<Rightarrow> world \<Rightarrow> string option \<times> world" where
  "DoHelp p sArgs w =
     (case NoMore sArgs of
        Some e \<Rightarrow> (Some e, w)
      | None \<Rightarrow> (None, out p (message_of ''help'' w) w))"

subsection \<open>Commands that move a player\<close>

text \<open>\<open>PlayerToRoom\<close> ends by running the command \<open>look\<close> for the moved player, through
  \<open>tPlayer::DoCommand\<close> and so through \<open>ProcessCommand\<close> again. The functions below take
  it as the parameter \<open>doCommand\<close>; \<open>ProcessCommand\<close> ties the knot, with a bound on the depth
  of the nested calls.\<close>

type_synonym tDoCommand = "nat \<Rightarrow> string \<Rightarrow> world \<Rightarrow> result"

definition PlayerToRoom ::
  "tDoCommand \<Rightarrow> nat \<Rightarrow> int \<Rightarrow> string \<Rightarrow> string \<Rightarrow> string \<Rightarrow> world \<Rightarrow> result" where
  "PlayerToRoom doCommand p vnum sPlayerMessage sOthersDepartMessage sOthersArrriveMessage w =
     (case FindRoom vnum w of
        Inl e \<Rightarrow> Some (Some e, w)
      | Inr r \<Rightarrow>
          (let w1 = SendToAll sOthersDepartMessage (Some p) (room (pl w p)) w;
               w2 = upd p (\<lambda>q. q\<lparr>room := vnum\<rparr>) w1;
               w3 = out p sPlayerMessage w2
           in case doCommand p ''look'' w3 of
                None \<Rightarrow> None
              | Some (Some e, w4) \<Rightarrow> Some (Some e, w4)
              | Some (None, w4) \<Rightarrow>
                  Some (None, SendToAll sOthersArrriveMessage (Some p) (room (pl w4 p)) w4)))"

definition DoDirection :: "tDoCommand \<Rightarrow> nat \<Rightarrow> string \<Rightarrow> world \<Rightarrow> result" where
  "DoDirection doCommand p sArgs w =
     (case FindRoom (room (pl w p)) w of
        Inl e \<Rightarrow> Some (Some e, w)
      | Inr r \<Rightarrow>
          (case map_of (exits r) sArgs of
             None \<Rightarrow> Some (Some ''You cannot go that way.'', w)
           | Some vnum \<Rightarrow>
               PlayerToRoom doCommand p vnum
                 (''You go '' @ sArgs @ ''\<newline>'')
                 (playername (pl w p) @ '' goes '' @ sArgs @ ''\<newline>'')
                 (playername (pl w p) @ '' enters.\<newline>'') w))"

definition DoGoTo :: "tDoCommand \<Rightarrow> nat \<Rightarrow> istream \<Rightarrow> world \<Rightarrow> result" where
  "DoGoTo doCommand p sArgs w =
     (case NeedFlag ''can_goto'' (pl w p) of
        Some e \<Rightarrow> Some (Some e, w)
      | None \<Rightarrow>
          (let (vnum, is1) = get_int 0 sArgs
           in if failbit is1 then Some (Some ''Go to which room?'', w)
              else (case NoMore is1 of
                      Some e \<Rightarrow> Some (Some e, w)
                    | None \<Rightarrow>
                        PlayerToRoom doCommand p vnum
                          (''You go to room '' @ show_int vnum @ ''\<newline>'')
                          (playername (pl w p) @ '' disappears in a puff of smoke!\<newline>'')
                          (playername (pl w p) @ '' appears in a puff of smoke!\<newline>'') w)))"

definition DoTransfer :: "tDoCommand \<Rightarrow> nat \<Rightarrow> istream \<Rightarrow> world \<Rightarrow> result" where
  "DoTransfer doCommand p sArgs w =
     (case NeedFlag ''can_transfer'' (pl w p) of
        Some e \<Rightarrow> Some (Some e, w)
      | None \<Rightarrow>
          (case GetPlayer p sArgs ''Usage: transfer <who> [ where ] (default is here)'' True w of
             Inl e \<Rightarrow> Some (Some e, w)
           | Inr (ptarget, is1) \<Rightarrow>
               (let (n, is2) = get_int 0 is1;
                    vnum = (if failbit is2 then room (pl w p) else n)
                in case NoMore is2 of
                     Some e \<Rightarrow> Some (Some e, w)
                   | None \<Rightarrow>
                       (let w1 = out p (''You transfer '' @ playername (pl w ptarget) @ '' to room ''
                                        @ show_int vnum @ ''\<newline>'') w
                        in PlayerToRoom doCommand ptarget vnum
                             (playername (pl w1 p) @ '' transfers you to another room!\<newline>'')
                             (playername (pl w1 ptarget) @ '' is yanked away by unseen forces!\<newline>'')
                             (playername (pl w1 ptarget) @ '' appears breathlessly!\<newline>'') w1))))"

text \<open>The command map that \<open>LoadThings\<close> builds; its keys are compared exactly.\<close>

definition commandmap :: "tDoCommand \<Rightarrow> string \<Rightarrow> tHandler option" where
  "commandmap doCommand command =
     (if command = ''look'' \<or> command = ''l'' then Some (\<lambda>p a w. Some (DoLook p a w))
      else if command = ''quit'' then Some (\<lambda>p a w. Some (DoQuit p a w))
      else if command = ''say'' \<or> command = ''\"'' then Some (\<lambda>p a w. Some (DoSay p a w))
      else if command = ''tell'' then Some (\<lambda>p a w. Some (DoTell p a w))
      else if command = ''shutdown'' then Some (\<lambda>p a w. Some (DoShutdown p a w))
      else if command = ''help'' then Some (\<lambda>p a w. Some (DoHelp p a w))
      else if command = ''goto'' then Some (DoGoTo doCommand)
      else if command = ''transfer'' then Some (DoTransfer doCommand)
      else if command = ''setflag'' then Some (\<lambda>p a w. Some (DoSetFlag p a w))
      else if command = ''clearflag'' then Some (\<lambda>p a w. Some (DoClearFlag p a w))
      else None)"

text \<open>\<open>ProcessCommand\<close>. The first argument bounds the depth of nested \<open>ProcessCommand\<close>
  calls: at depth zero the call does not return. (The nesting is unbounded exactly when
  \<open>look\<close> is itself a direction and the \<open>look\<close> exits form a cycle.)\<close>

fun ProcessCommand :: "nat \<Rightarrow> nat \<Rightarrow> istream \<Rightarrow> world \<Rightarrow> result" where
  "ProcessCommand 0 p sArgs w = None"
| "ProcessCommand (Suc n) p sArgs w =
     (let (command, is1) = get_string [] sArgs;
          is2 = get_ws is1
      in if ci_find command (directionset w)
         then DoDirection (\<lambda>q c w'. ProcessCommand n q (istringstream c) w') p command w
         else (case commandmap (\<lambda>q c w'. ProcessCommand n q (istringstream c) w') command of
                 None \<Rightarrow> Some (Some ''Huh?'', w)
               | Some handler \<Rightarrow> handler p is2 w))"

text \<open>\<open>tPlayer::DoCommand\<close>.\<close>

definition DoCommand :: "nat \<Rightarrow> tDoCommand" where
  "DoCommand n p command w = ProcessCommand n p (istringstream command) w"

subsection \<open>Player files\<close>

definition player_file :: "string \<Rightarrow> string" where
  "player_file name = PLAYER_DIR @ name @ PLAYER_EXT"

text \<open>The loop of \<open>LoadSet\<close>: \<open>while (!is.eof ()) { is >> flag; s.insert (flag); }\<close>. On a
  stream with \<open>failbit\<close> and without \<open>eofbit\<close> no extraction ever reaches the end, and the
  loop does not exit.\<close>

function LoadSet_loop :: "istream \<Rightarrow> string \<Rightarrow> string list \<Rightarrow> string list option" where
  "LoadSet_loop is flag st =
     (if eofbit is then Some st
      else if failbit is then None
      else (case get_string flag is of
              (flag1, is1) \<Rightarrow> LoadSet_loop is1 flag1 (ci_insert flag1 st)))"
  by pat_completeness auto
termination
proof (relation "measure (\<lambda>(is, flag, st). if eofbit is \<or> failbit is then 0 else Suc (length (rest is)))",
    goal_cases)
  case 1
  show ?case by simp
next
  case (2 "is" flag st flag1 is1)
  let ?r = "dropWhile isspace_c (rest is)"
  show ?case
  proof (cases "?r = []")
    case True
    with 2 show ?thesis
      by (auto simp add: get_string_def sentry_def good_def)
  next
    case False
    then obtain y ys where d: "?r = y # ys"
      by (cases ?r) auto
    then have "\<not> isspace_c y"
      using hd_dropWhile [OF False] by simp
    then have "length (dropWhile (\<lambda>c. \<not> isspace_c c) (y # ys)) \<le> length ys"
      by (simp add: length_dropWhile_le)
    moreover have "length (y # ys) \<le> length (rest is)"
      using d length_dropWhile_le [of isspace_c "rest is"] by simp
    ultimately have "length (dropWhile (\<lambda>c. \<not> isspace_c c) ?r) < length (rest is)"
      using d by simp
    with 2 False show ?thesis
      by (auto simp add: get_string_def sentry_def good_def Let_def dropWhile_eq_Nil_conv
          split: if_splits)
  qed
qed

declare LoadSet_loop.simps [simp del]

definition LoadSet :: "istream \<Rightarrow> (string list \<times> istream) option" where
  "LoadSet f =
     (case getline [] f of
        (sLine, f1) \<Rightarrow>
          (case LoadSet_loop (istringstream sLine) [] [] of
             None \<Rightarrow> None
           | Some st \<Rightarrow> Some (st, f1)))"

text \<open>\<open>tPlayer::Load\<close> for the player at position \<open>p\<close>.\<close>

definition Load :: "nat \<Rightarrow> world \<Rightarrow> result" where
  "Load p w =
     (case playerfiles w (player_file (playername (pl w p))) of
        None \<Rightarrow> Some (Some (''That player does not exist, type '' @ [CHR 0x27] @ ''new''
                            @ [CHR 0x27] @ '' to create a new one.''), w)
      | Some content \<Rightarrow>
          (let (pw, f1) = get_string (password (pl w p)) (istringstream content);
               (vnum, f2) = get_int (room (pl w p)) f1;
               f3 = ignore_line f2
           in case LoadSet f3 of
                None \<Rightarrow> None
              | Some (st, f4) \<Rightarrow>
                  Some (None, upd p (\<lambda>q. q\<lparr>password := pw, room := vnum, flags := st\<rparr>) w)))"

text \<open>\<open>tPlayer::Save\<close>.\<close>

definition Save :: "nat \<Rightarrow> world \<Rightarrow> world" where
  "Save p w =
     (let q = pl w p; path = player_file (playername q)
      in if unwritable w path
         then log_line (''Could not write to file for player '' @ playername q) w
         else w\<lparr>playerfiles := (playerfiles w)(path \<mapsto>
                  password q @ ''\<newline>'' @ show_int (room q) @ ''\<newline>''
                  @ concat (map (\<lambda>f. f @ '' '') (flags q)) @ ''\<newline>'')\<rparr>)"

subsection \<open>The connection states\<close>

definition PlayerEnteredGame :: "tDoCommand \<Rightarrow> nat \<Rightarrow> string \<Rightarrow> world \<Rightarrow> result" where
  "PlayerEnteredGame doCommand p message w =
     (let w1 = upd p (\<lambda>q. q\<lparr>connstate := ePlaying, prompt := PROMPT\<rparr>) w;
          w2 = out p (''Welcome, '' @ playername (pl w1 p) @ ''\<newline>\<newline>'') w1;
          w3 = out p message w2;
          w4 = out p (message_of ''motd'' w3) w3
      in case doCommand p ''look'' w4 of
           None \<Rightarrow> None
         | Some (Some e, w5) \<Rightarrow> Some (Some e, w5)
         | Some (None, w5) \<Rightarrow>
             Some (None,
               log_line (''Player '' @ playername (pl w5 p) @ '' has joined the game.'')
                 (SendToAll (''Player '' @ playername (pl w5 p) @ '' has joined the game from ''
                             @ address (pl w5 p) @ ''.\<newline>'') (Some p) 0 w5)))"

definition ProcessPlayerName :: "nat \<Rightarrow> istream \<Rightarrow> world \<Rightarrow> result" where
  "ProcessPlayerName p sArgs w =
     (let (name, is1) = get_string [] sArgs
      in if name = [] then Some (Some ''Name cannot be blank.'', w)
         else if FindPlayer name w \<noteq> None then Some (Some (name @ '' is already connected.''), w)
         else if has_invalid_char name
           then Some (Some ''That player name contains disallowed characters.'', w)
         else if tolower_s name = ''new''
           then Some (None, upd p (\<lambda>q. q\<lparr>connstate := eAwaitingNewName,
                        prompt := ''Please choose a name for your new character ... ''\<rparr>) w)
         else (let w1 = upd p (\<lambda>q. q\<lparr>playername := tocapitals name\<rparr>) w
               in case Load p w1 of
                    None \<Rightarrow> None
                  | Some (Some e, w2) \<Rightarrow> Some (Some e, w2)
                  | Some (None, w2) \<Rightarrow>
                      Some (None, upd p (\<lambda>q. q\<lparr>connstate := eAwaitingPassword,
                              prompt := ''Enter your password ... '',
                              badPasswordCount := 0\<rparr>) w2)))"

definition ProcessNewPlayerName :: "nat \<Rightarrow> istream \<Rightarrow> world \<Rightarrow> result" where
  "ProcessNewPlayerName p sArgs w =
     (let (name, is1) = get_string [] sArgs
      in if name = [] then Some (Some ''Name cannot be blank.'', w)
         else if has_invalid_char name
           then Some (Some ''That player name contains disallowed characters.'', w)
         else if ci_find name (badnameset w) then Some (Some ''That name is not permitted.'', w)
         else if playerfiles w (player_file (tocapitals name)) \<noteq> None \<or> FindPlayer name w \<noteq> None
           then Some (Some ''That player already exists, please choose another name.'', w)
         else Some (None, upd p (\<lambda>q. q\<lparr>playername := tocapitals name,
                      connstate := eAwaitingNewPassword,
                      prompt := ''Choose a password for '' @ tocapitals name @ '' ... '',
                      badPasswordCount := 0\<rparr>) w))"

definition ProcessNewPassword :: "nat \<Rightarrow> istream \<Rightarrow> world \<Rightarrow> result" where
  "ProcessNewPassword p sArgs w =
     (let (pw, is1) = get_string [] sArgs
      in if pw = [] then Some (Some ''Password cannot be blank.'', w)
         else Some (None, upd p (\<lambda>q. q\<lparr>password := pw, connstate := eConfirmPassword,
                      prompt := ''Re-enter password to confirm it ... ''\<rparr>) w))"

text \<open>\<open>ProcessConfirmPassword\<close>. The second check of the source opens the player file
  named after \<open>tocapitals (password)\<close> and calls \<open>FindPlayer (password)\<close>: it is modelled
  as written.\<close>

definition ProcessConfirmPassword :: "tDoCommand \<Rightarrow> nat \<Rightarrow> istream \<Rightarrow> world \<Rightarrow> result" where
  "ProcessConfirmPassword doCommand p sArgs w =
     (let (pw, is1) = get_string [] sArgs
      in if pw \<noteq> password (pl w p)
         then Some (Some ''Password and confirmation do not agree.'',
                upd p (\<lambda>q. q\<lparr>connstate := eAwaitingNewPassword,
                  prompt := ''Choose a password for '' @ playername q @ '' ... ''\<rparr>) w)
         else if playerfiles w (player_file (tocapitals pw)) \<noteq> None \<or> FindPlayer pw w \<noteq> None
         then Some (Some ''That player already exists, please choose another name.'',
                upd p (\<lambda>q. q\<lparr>connstate := eAwaitingNewName,
                  prompt := ''Please choose a name for your new character ... ''\<rparr>) w)
         else PlayerEnteredGame doCommand p (message_of ''new_player'' w) w)"

text \<open>\<open>ProcessPlayerPassword\<close>: the body of the \<open>try\<close> block first, then the \<open>catch\<close>
  clause, which counts the attempt and throws the error again.\<close>

definition ProcessPlayerPassword_try :: "tDoCommand \<Rightarrow> nat \<Rightarrow> istream \<Rightarrow> world \<Rightarrow> result" where
  "ProcessPlayerPassword_try doCommand p sArgs w =
     (let (pw, is1) = get_string [] sArgs
      in if pw = [] then Some (Some ''Password cannot be blank.'', w)
         else if pw \<noteq> password (pl w p) then Some (Some ''That password is incorrect.'', w)
         else if HaveFlag ''blocked'' (pl w p)
           then Some (Some ''You are not permitted to connect.'',
                  upd p (\<lambda>q. (ClosePlayer q)\<lparr>prompt := ''Goodbye.\<newline>''\<rparr>) w)
         else PlayerEnteredGame doCommand p (message_of ''existing_player'' w) w)"

definition ProcessPlayerPassword :: "tDoCommand \<Rightarrow> nat \<Rightarrow> istream \<Rightarrow> world \<Rightarrow> result" where
  "ProcessPlayerPassword doCommand p sArgs w =
     (case ProcessPlayerPassword_try doCommand p sArgs w of
        None \<Rightarrow> None
      | Some (None, w1) \<Rightarrow> Some (None, w1)
      | Some (Some e, w1) \<Rightarrow>
          (let w2 = upd p (\<lambda>q. q\<lparr>badPasswordCount := badPasswordCount q + 1\<rparr>) w1
           in if MAX_PASSWORD_ATTEMPTS \<le> badPasswordCount (pl w2 p)
              then Some (Some e, upd p Init (out p ''Too many attempts to guess the password!\<newline>'' w2))
              else Some (Some e, w2)))"

text \<open>The state map that \<open>LoadThings\<close> builds, and \<open>ProcessPlayerInput\<close>: the single
  \<open>catch\<close> of the handlers' errors, and the prompt. Their first argument \<open>n\<close> is the bound
  on the depth of nested \<open>ProcessCommand\<close> calls; the second is the player.\<close>

fun statemap :: "nat \<Rightarrow> tConnectionStates \<Rightarrow> tHandler" where
  "statemap n eAwaitingName = ProcessPlayerName"
| "statemap n eAwaitingPassword = ProcessPlayerPassword (DoCommand n)"
| "statemap n eAwaitingNewName = ProcessNewPlayerName"
| "statemap n eAwaitingNewPassword = ProcessNewPassword"
| "statemap n eConfirmPassword = ProcessConfirmPassword (DoCommand n)"
| "statemap n ePlaying = ProcessCommand n"

definition ProcessPlayerInput :: "nat \<Rightarrow> nat \<Rightarrow> string \<Rightarrow> world \<Rightarrow> world option" where
  "ProcessPlayerInput n p str w =
     (case statemap n (connstate (pl w p)) p (istringstream str) w of
        None \<Rightarrow> None
      | Some (None, w1) \<Rightarrow> Some (out p (prompt (pl w1 p)) w1)
      | Some (Some e, w1) \<Rightarrow>
          (let w2 = out p (e @ ''\<newline>'') w1
           in Some (out p (prompt (pl w2 p)) w2)))"

subsection \<open>Reading from and writing to a socket\<close>

text \<open>What \<open>read\<close> returned: \<open>-1\<close> (with whether \<open>errno\<close> is \<open>EWOULDBLOCK\<close>), or the
  bytes read; no byte means the peer has closed the connection.\<close>

datatype read_result = ReadError bool | ReadBytes string

text \<open>The loop of \<open>ProcessRead\<close> that cuts the input buffer into lines and processes each
  (after \<open>Trim\<close>) in turn. It ends when the buffer holds no newline.\<close>

partial_function (option) extract_lines :: "nat \<Rightarrow> nat \<Rightarrow> world \<Rightarrow> world option" where
  "extract_lines n p w =
     (case dropWhile (\<lambda>c. c \<noteq> CHR 0x0A) (inbuf (pl w p)) of
        [] \<Rightarrow> Some w
      | c # r \<Rightarrow>
          (case ProcessPlayerInput n p (Trim (takeWhile (\<lambda>c. c \<noteq> CHR 0x0A) (inbuf (pl w p))))
                  (upd p (\<lambda>q. q\<lparr>inbuf := r\<rparr>) w) of
             None \<Rightarrow> None
           | Some w1 \<Rightarrow> extract_lines n p w1))"

declare extract_lines.simps [code]

definition ProcessRead :: "nat \<Rightarrow> nat \<Rightarrow> read_result \<Rightarrow> world \<Rightarrow> world option" where
  "ProcessRead n p nRead w =
     (if closing (pl w p) then Some w
      else (case nRead of
              ReadError wouldblock \<Rightarrow>
                Some (if \<not> wouldblock then log_line ''read from player'' w else w)
            | ReadBytes bytes \<Rightarrow>
                if bytes = []
                then ProcessPlayerInput n p ''quit''
                       (upd p (\<lambda>q. q\<lparr>sock := NO_SOCKET\<rparr>)
                          (log_line (''Connection '' @ show_int (sock (pl w p)) @ '' closed'') w))
                else extract_lines n p (upd p (\<lambda>q. q\<lparr>inbuf := inbuf q @ bytes\<rparr>) w)))"

text \<open>What \<open>write\<close> returned: a negative value (with whether \<open>errno\<close> is \<open>EWOULDBLOCK\<close>),
  or the number of bytes written. The first argument of \<open>ProcessWrite\<close> gives the result
  of each call of \<open>write\<close> in turn, the second counts the calls made so far. The function
  returns the player and the calls it made: the length it offered and the result.
  (\<open>min<int> (outbuf.size (), 512)\<close> is the minimum below for a buffer of less than
  \<open>2^31\<close> bytes.)\<close>

datatype write_result = WriteError bool | Written nat

function ProcessWrite ::
  "(nat \<Rightarrow> write_result) \<Rightarrow> nat \<Rightarrow> tPlayer \<Rightarrow> tPlayer \<times> (nat \<times> write_result) list" where
  "ProcessWrite write k q =
     (if sock q \<noteq> NO_SOCKET \<and> outbuf q \<noteq> []
      then (let iLength = min (length (outbuf q)) 512
            in case write k of
                 WriteError wouldblock \<Rightarrow> (q, [(iLength, WriteError wouldblock)])
               | Written nWrite \<Rightarrow>
                   (let q1 = q\<lparr>outbuf := drop nWrite (outbuf q)\<rparr>
                    in if nWrite < iLength then (q1, [(iLength, Written nWrite)])
                       else (case ProcessWrite write (Suc k) q1 of
                               (q2, calls) \<Rightarrow> (q2, (iLength, Written nWrite) # calls))))
      else (q, []))"
  by pat_completeness auto
termination
  by (relation "measure (\<lambda>(write, k, q). length (outbuf q))") auto

declare ProcessWrite.simps [simp del]

subsection \<open>Deleting sessions\<close>

text \<open>The destructor \<open>~tPlayer\<close> of the player at position \<open>i\<close>: a last \<open>ProcessWrite\<close>,
  \<open>close\<close> for a socket that is still open, and \<open>Save\<close> for a player in state \<open>ePlaying\<close>.
  It returns the world, the calls of \<open>write\<close> it made, and the socket it closed, if any.\<close>

definition tPlayer_dtor ::
  "(nat \<Rightarrow> write_result) \<Rightarrow> nat \<Rightarrow> nat \<Rightarrow> world
     \<Rightarrow> world \<times> (nat \<times> write_result) list \<times> int option" where
  "tPlayer_dtor wr k i w =
     (let (q, calls) = ProcessWrite wr k (pl w i);
          w1 = upd i (\<lambda>q0. q) w;
          closed = (if sock q \<noteq> NO_SOCKET then Some (sock q) else None);
          w2 = (if connstate q = ePlaying then Save i w1 else w1)
      in (w2, calls, closed))"

text \<open>The loop of \<open>RemoveInactivePlayers\<close>, from position \<open>i\<close> of the player list:
  \<open>delete *i; playerlist.erase (i++)\<close> for a player that is not connected or is closing,
  \<open>++i\<close> otherwise. It returns the world and, for each player deleted, what its destructor
  did to its socket.\<close>

function RemoveInactivePlayers_from ::
  "(nat \<Rightarrow> write_result) \<Rightarrow> nat \<Rightarrow> nat \<Rightarrow> world
     \<Rightarrow> world \<times> ((nat \<times> write_result) list \<times> int option) list" where
  "RemoveInactivePlayers_from wr k i w =
     (if i < length (playerlist w)
      then (if \<not> Connected (pl w i) \<or> closing (pl w i)
            then (case tPlayer_dtor wr k i w of
                    (w1, calls, closed) \<Rightarrow>
                      (case RemoveInactivePlayers_from wr (k + length calls) i
                              (w1\<lparr>playerlist := take i (playerlist w1)
                                                 @ drop (Suc i) (playerlist w1)\<rparr>) of
                         (w2, deleted) \<Rightarrow> (w2, (calls, closed) # deleted)))
            else RemoveInactivePlayers_from wr k (Suc i) w)
      else (w, []))"
  by pat_completeness auto
termination
proof (relation "measure (\<lambda>(wr, k, i, w). length (playerlist w) - i)", goal_cases)
  case 1
  show ?case by simp
next
  case (2 wr k i w w1 r calls closed)
  have "length (playerlist (fst (tPlayer_dtor wr k i w))) = length (playerlist w)"
    by (simp add: tPlayer_dtor_def Let_def split_beta Save_def log_line_def upd_def)
  with 2(3) [symmetric] have "length (playerlist w1) = length (playerlist w)"
    by simp
  with 2(1) show ?case by simp
next
  case (3 wr k i w)
  then show ?case by simp
qed

declare RemoveInactivePlayers_from.simps [simp del]

definition RemoveInactivePlayers ::
  "(nat \<Rightarrow> write_result) \<Rightarrow> nat \<Rightarrow> world
     \<Rightarrow> world \<times> ((nat \<times> write_result) list \<times> int option) list" where
  "RemoveInactivePlayers wr k w = RemoveInactivePlayers_from wr k 0 w"

section \<open>Vocabulary of the statements\<close>

text \<open>The bytes that the calls of one pass wrote (a failed call wrote none), and the calls
  that wrote all they offered.\<close>

definition bytes_written :: "(nat \<times> write_result) list \<Rightarrow> nat" where
  "bytes_written calls =
     sum_list (map (\<lambda>c. case snd c of WriteError b \<Rightarrow> 0 | Written n \<Rightarrow> n) calls)"

definition is_full_write :: "nat \<times> write_result \<Rightarrow> bool" where
  "is_full_write c = (case snd c of WriteError b \<Rightarrow> False | Written n \<Rightarrow> fst c \<le> n)"

text \<open>The target and the flag that the argument text of \<open>setflag\<close> or \<open>clearflag\<close> names
  for player \<open>p\<close>, when it names both and nothing more: what \<open>GetPlayer\<close>, \<open>GetFlag\<close> and
  \<open>NoMore\<close> accept in turn.\<close>

definition flag_arguments :: "nat \<Rightarrow> istream \<Rightarrow> world \<Rightarrow> (nat \<times> string) option" where
  "flag_arguments p sArgs w =
     (case GetPlayer p sArgs [] False w of
        Inl e \<Rightarrow> None
      | Inr (t, is1) \<Rightarrow>
          (case GetFlag is1 [] of
             Inl e \<Rightarrow> None
           | Inr (flag, is2) \<Rightarrow> if NoMore is2 = None then Some (t, flag) else None))"

text \<open>A failed guess: the first word of the line is missing, or is not the password.\<close>

definition wrong_password :: "string \<Rightarrow> tPlayer \<Rightarrow> bool" where
  "wrong_password line q =
     (fst (get_string [] (istringstream line)) = []
      \<or> fst (get_string [] (istringstream line)) \<noteq> password q)"

text \<open>Lines processed one after the other for one session.\<close>

fun process_lines :: "nat \<Rightarrow> nat \<Rightarrow> string list \<Rightarrow> world \<Rightarrow> world option" where
  "process_lines n p [] w = Some w"
| "process_lines n p (l # ls) w =
     (case ProcessPlayerInput n p l w of None \<Rightarrow> None | Some w1 \<Rightarrow> process_lines n p ls w1)"

text \<open>What \<open>ProcessPlayerInput\<close> prints for the outcome of a handler: nothing for a normal
  return, the message and a newline for an error.\<close>

definition error_line :: "string option \<Rightarrow> string" where
  "error_line e = (case e of None \<Rightarrow> [] | Some m \<Rightarrow> m @ ''\<newline>'')"

text \<open>The test of \<open>RemoveInactivePlayers\<close>; the text that \<open>Save\<close> writes for a player; and
  what deleting a player does to the player files and the console: \<open>Save\<close> for a player in
  state \<open>ePlaying\<close>, with the data of that player.\<close>

definition inactive :: "tPlayer \<Rightarrow> bool" where
  "inactive q = (\<not> Connected q \<or> closing q)"

definition record_text :: "tPlayer \<Rightarrow> string" where
  "record_text q =
     password q @ ''\<newline>'' @ show_int (room q) @ ''\<newline>''
     @ concat (map (\<lambda>f. f @ '' '') (flags q)) @ ''\<newline>''"

definition save_record :: "tPlayer \<Rightarrow> world \<Rightarrow> world" where
  "save_record q w =
     (if unwritable w (player_file (playername q))
      then log_line (''Could not write to file for player '' @ playername q) w
      else w\<lparr>playerfiles := (playerfiles w)(player_file (playername q) \<mapsto> record_text q)\<rparr>)"

definition save_on_delete :: "world \<Rightarrow> tPlayer \<Rightarrow> world" where
  "save_on_delete w q = (if connstate q = ePlaying then save_record q w else w)"

section \<open>Example states\<close>

text \<open>A player and a small world: room 1000 has an exit \<open>n\<close> to room 1001 and an exit
  \<open>d\<close> to a room 2000 that does not exist; \<open>u\<close> is a direction without an exit.\<close>

definition example_player :: "string \<Rightarrow> int \<Rightarrow> tConnectionStates \<Rightarrow> int \<Rightarrow> tPlayer" where
  "example_player name fd st vnum =
     \<lparr>sock = fd, port = 4000, outbuf = [], inbuf = [], address = ''127.0.0.1'',
      connstate = st, prompt = PROMPT, playername = name, password = ''secret'',
      badPasswordCount = 0, room = vnum, closing = False, flags = []\<rparr>"

definition example_world :: "tPlayer list \<Rightarrow> world" where
  "example_world ps =
     \<lparr>playerlist = ps,
      roommap = [(1000, \<lparr>description = ''A room.\<newline>'', exits = [(''d'', 2000), (''n'', 1001)]\<rparr>),
                 (1001, \<lparr>description = ''Another room.\<newline>'', exits = [(''s'', 1000)]\<rparr>)],
      messagemap = [(''motd'', ''Hello.\<newline>'')],
      directionset = [''d'', ''n'', ''s'', ''u''],
      badnameset = [''new''],
      bStopNow = False,
      playerfiles = Map.empty,
      unwritable = (\<lambda>path. False),
      console = []\<rparr>"

text \<open>Ann, who may set flags.\<close>

definition flag_world :: world where
  "flag_world = example_world [(example_player ''Ann'' 5 ePlaying 1000)\<lparr>flags := [''can_setflag'']\<rparr>]"

text \<open>Bob, loaded with the password \<open>secret\<close>, the room 1234 and one flag, awaits his
  password.\<close>

definition password_world :: world where
  "password_world = example_world [(example_player ''Bob'' 5 eAwaitingPassword 1234)\<lparr>flags := [''can_goto'']\<rparr>]"

text \<open>Two states of the registration dialogue. In the first, another session has entered the
  game as Bob while session 0 was choosing a password for the same name. In the second,
  session 0 registers the free name Carl and has chosen the password \<open>bob\<close>, while a
  player Bob is connected.\<close>

definition late_collision_world :: world where
  "late_collision_world =
     example_world [example_player ''Bob'' 5 eConfirmPassword 1000,
                    example_player ''Bob'' 6 ePlaying 1000]"

definition password_names_player_world :: world where
  "password_names_player_world =
     example_world [(example_player ''Carl'' 5 eConfirmPassword 1000)\<lparr>password := ''bob''\<rparr>,
                    example_player ''Bob'' 6 ePlaying 1000]"

text \<open>A playing session with the password \<open>secret\<close>, in room 1000, with no flag.\<close>

definition saved_world :: world where
  "saved_world = example_world [example_player ''Ann'' 5 ePlaying 1000]"

text \<open>Ann awaits her password, which is \<open>quit\<close>; Bob is playing.\<close>

definition quit_password_world :: world where
  "quit_password_world =
     example_world [(example_player ''Ann'' 5 eAwaitingPassword 1000)\<lparr>password := ''quit''\<rparr>,
                    example_player ''Bob'' 6 ePlaying 1000]"

text \<open>Ann and Bob are playing, in different rooms.\<close>

definition two_players_world :: world where
  "two_players_world =
     example_world [example_player ''Ann'' 5 ePlaying 1000, example_player ''Bob'' 6 ePlaying 1001]"

text \<open>A session that awaits a name, and the player file of Bob.\<close>

definition login_world :: world where
  "login_world =
     (example_world [(Init (example_player [] 5 eAwaitingName 1000))\<lparr>password := []\<rparr>])
       \<lparr>playerfiles := [player_file ''Bob'' \<mapsto> ''secret\<newline>1234\<newline>can_goto \<newline>'']\<rparr>"

section \<open>Broadcast\<close>

text \<open>
  Claim C5, as the code has it. \<open>SendToAll\<close> keeps the player list's length and every other
  part of the world, and appends the message to the output buffer of exactly the sessions
  whose socket is connected, whose state is \<open>ePlaying\<close>, that are not closing, that are not
  the excluded session, and whose room is the restriction \<open>r\<close> when \<open>r\<close> is not zero (room
  number zero stands for no restriction). Every other session is left as it was: in
  particular the excluded session, and a session in another room than a non-zero \<open>r\<close>.
\<close>

theorem SendToAll_delivers:
  "i < length (playerlist w) \<Longrightarrow>
     length (playerlist (SendToAll message except r w)) = length (playerlist w) \<and>
     pl (SendToAll message except r w) i =
       (if sock (pl w i) \<noteq> NO_SOCKET \<and> connstate (pl w i) = ePlaying \<and> \<not> closing (pl w i)
           \<and> Some i \<noteq> except \<and> (r = 0 \<or> room (pl w i) = r)
        then (pl w i)\<lparr>outbuf := outbuf (pl w i) @ message\<rparr>
        else pl w i) \<and>
     SendToAll message except r w = w\<lparr>playerlist := playerlist (SendToAll message except r w)\<rparr>"
  by (auto simp add: SendToAll_def pl_def sendToPlayer_def IsPlaying_def Connected_def)

text \<open>The theorem at work: three playing sessions, the second excluded, the third in
  another room; the first receives the message.\<close>

theorem SendToAll_delivers_witness:
  "pl (SendToAll ''hi'' (Some 1) 1000 (example_world
        [example_player ''Ann'' 5 ePlaying 1000, example_player ''Bob'' 6 ePlaying 1000,
         example_player ''Cy'' 7 ePlaying 1001])) 0
     = (example_player ''Ann'' 5 ePlaying 1000)\<lparr>outbuf := ''hi''\<rparr>"
  using SendToAll_delivers [of 0 "example_world
        [example_player ''Ann'' 5 ePlaying 1000, example_player ''Bob'' 6 ePlaying 1000,
         example_player ''Cy'' 7 ePlaying 1001]" "''hi''" "Some 1" 1000]
  by (simp add: example_world_def example_player_def pl_def NO_SOCKET_def)

text \<open>A session in state \<open>ePlaying\<close> that is not closing, is not excluded and is in the
  room of the broadcast, but whose socket is no longer connected, receives nothing:
  \<open>IsPlaying\<close> asks for a connected socket too. Such a session arises when the peer of a
  session that awaits the password \<open>quit\<close> closes the connection: the synthetic \<open>quit\<close> line
  is taken as the password.\<close>

theorem SendToAll_dead_socket_counterexample:
  "map_option (\<lambda>w'. (connstate (pl w' 0), closing (pl w' 0), room (pl w' 0), sock (pl w' 0),
                       outbuf (pl (SendToAll ''hi'' None 1000 w') 0) = outbuf (pl w' 0) @ ''hi'',
                       outbuf (pl (SendToAll ''hi'' None 1000 w') 1) = outbuf (pl w' 1) @ ''hi''))
     (ProcessRead 2 0 (ReadBytes []) quit_password_world)
   = Some (ePlaying, False, 1000, - 1, False, True)"
  by code_simp

section \<open>Writing pending output\<close>

lemma bytes_written_simps [simp]:
  "bytes_written [] = 0"
  "bytes_written ((len, WriteError b) # cs) = bytes_written cs"
  "bytes_written ((len, Written n) # cs) = n + bytes_written cs"
  by (simp_all add: bytes_written_def)

lemma ProcessWrite_idle:
  "sock q = NO_SOCKET \<or> outbuf q = [] \<Longrightarrow> ProcessWrite wr k q = (q, [])"
  by (subst ProcessWrite.simps) auto

lemma ProcessWrite_error:
  "sock q \<noteq> NO_SOCKET \<Longrightarrow> outbuf q \<noteq> [] \<Longrightarrow> wr k = WriteError b \<Longrightarrow>
     ProcessWrite wr k q = (q, [(min (length (outbuf q)) 512, WriteError b)])"
  by (subst ProcessWrite.simps) (simp add: Let_def)

lemma ProcessWrite_short:
  "sock q \<noteq> NO_SOCKET \<Longrightarrow> outbuf q \<noteq> [] \<Longrightarrow> wr k = Written n \<Longrightarrow>
   n < min (length (outbuf q)) 512 \<Longrightarrow>
     ProcessWrite wr k q = (q\<lparr>outbuf := drop n (outbuf q)\<rparr>, [(min (length (outbuf q)) 512, Written n)])"
  by (subst ProcessWrite.simps) (simp add: Let_def)

lemma ProcessWrite_full:
  "sock q \<noteq> NO_SOCKET \<Longrightarrow> outbuf q \<noteq> [] \<Longrightarrow> wr k = Written n \<Longrightarrow>
   \<not> n < min (length (outbuf q)) 512 \<Longrightarrow>
     ProcessWrite wr k q =
       (fst (ProcessWrite wr (Suc k) (q\<lparr>outbuf := drop n (outbuf q)\<rparr>)),
        (min (length (outbuf q)) 512, Written n)
          # snd (ProcessWrite wr (Suc k) (q\<lparr>outbuf := drop n (outbuf q)\<rparr>)))"
  by (subst ProcessWrite.simps) (auto simp add: Let_def split: prod.splits)

lemma ProcessWrite_cases:
  obtains (idle) "sock q = NO_SOCKET \<or> outbuf q = []"
  | (error) b where "sock q \<noteq> NO_SOCKET" "outbuf q \<noteq> []" "wr k = WriteError b"
  | (short) n where "sock q \<noteq> NO_SOCKET" "outbuf q \<noteq> []" "wr k = Written n" "n < min (length (outbuf q)) 512"
  | (full) n where "sock q \<noteq> NO_SOCKET" "outbuf q \<noteq> []" "wr k = Written n" "\<not> n < min (length (outbuf q)) 512"
proof (cases "sock q = NO_SOCKET \<or> outbuf q = []")
  case True
  then show ?thesis by (rule idle)
next
  case False
  then show ?thesis
    by (cases "wr k"; cases "case wr k of Written n \<Rightarrow> n < min (length (outbuf q)) 512 | _ \<Rightarrow> False")
       (auto intro: error short full)
qed

lemma ProcessWrite_buffer:
  "fst (ProcessWrite wr k q) = q\<lparr>outbuf := drop (bytes_written (snd (ProcessWrite wr k q))) (outbuf q)\<rparr>"
proof (induction wr k q rule: ProcessWrite.induct)
  case (1 wr k q)
  show ?case
  proof (cases rule: ProcessWrite_cases [where q = q and wr = wr and k = k])
    case idle
    then show ?thesis by (simp add: ProcessWrite_idle)
  next
    case (error b)
    then show ?thesis by (simp add: ProcessWrite_error)
  next
    case (short n)
    then show ?thesis by (simp add: ProcessWrite_short)
  next
    case (full n)
    with "1.IH" [of "min (length (outbuf q)) 512" n "q\<lparr>outbuf := drop n (outbuf q)\<rparr>"]
    show ?thesis by (simp add: ProcessWrite_full add.commute)
  qed
qed

lemma ProcessWrite_cap:
  "list_all (\<lambda>c. 0 < fst c \<and> fst c \<le> 512) (snd (ProcessWrite wr k q))"
proof (induction wr k q rule: ProcessWrite.induct)
  case (1 wr k q)
  show ?case
  proof (cases rule: ProcessWrite_cases [where q = q and wr = wr and k = k])
    case idle
    then show ?thesis by (simp add: ProcessWrite_idle)
  next
    case (error b)
    then show ?thesis by (simp add: ProcessWrite_error)
  next
    case (short n)
    then show ?thesis by (simp add: ProcessWrite_short)
  next
    case (full n)
    with "1.IH" [of "min (length (outbuf q)) 512" n "q\<lparr>outbuf := drop n (outbuf q)\<rparr>"]
    show ?thesis by (simp add: ProcessWrite_full)
  qed
qed

lemma ProcessWrite_stops:
  "list_all is_full_write (butlast (snd (ProcessWrite wr k q)))"
proof (induction wr k q rule: ProcessWrite.induct)
  case (1 wr k q)
  show ?case
  proof (cases rule: ProcessWrite_cases [where q = q and wr = wr and k = k])
    case idle
    then show ?thesis by (simp add: ProcessWrite_idle)
  next
    case (error b)
    then show ?thesis by (simp add: ProcessWrite_error)
  next
    case (short n)
    then show ?thesis by (simp add: ProcessWrite_short)
  next
    case (full n)
    with "1.IH" [of "min (length (outbuf q)) 512" n "q\<lparr>outbuf := drop n (outbuf q)\<rparr>"]
    show ?thesis by (auto simp add: ProcessWrite_full is_full_write_def)
  qed
qed

lemma ProcessWrite_calls:
  "j < length (snd (ProcessWrite wr k q)) \<Longrightarrow>
     snd (ProcessWrite wr k q) ! j =
       (min (length (outbuf q) - bytes_written (take j (snd (ProcessWrite wr k q)))) 512, wr (k + j))"
proof (induction wr k q arbitrary: j rule: ProcessWrite.induct)
  case (1 wr k q)
  show ?case
  proof (cases rule: ProcessWrite_cases [where q = q and wr = wr and k = k])
    case idle
    with "1.prems" show ?thesis by (simp add: ProcessWrite_idle)
  next
    case (error b)
    with "1.prems" show ?thesis by (simp add: ProcessWrite_error)
  next
    case (short n)
    with "1.prems" show ?thesis by (simp add: ProcessWrite_short)
  next
    case (full n)
    show ?thesis
    proof (cases j)
      case 0
      with full show ?thesis by (simp add: ProcessWrite_full)
    next
      case (Suc j')
      with full "1.prems"
        "1.IH" [of "min (length (outbuf q)) 512" n "q\<lparr>outbuf := drop n (outbuf q)\<rparr>" j']
      show ?thesis by (simp add: ProcessWrite_full)
    qed
  qed
qed

lemma ProcessWrite_drained:
  "snd (ProcessWrite wr k q) \<noteq> [] \<Longrightarrow> is_full_write (last (snd (ProcessWrite wr k q))) \<Longrightarrow>
     outbuf (fst (ProcessWrite wr k q)) = []"
proof (induction wr k q rule: ProcessWrite.induct)
  case (1 wr k q)
  show ?case
  proof (cases rule: ProcessWrite_cases [where q = q and wr = wr and k = k])
    case idle
    with "1.prems" show ?thesis by (simp add: ProcessWrite_idle)
  next
    case (error b)
    with "1.prems" show ?thesis by (simp add: ProcessWrite_error is_full_write_def)
  next
    case (short n)
    with "1.prems" show ?thesis by (auto simp add: ProcessWrite_short is_full_write_def)
  next
    case (full n)
    show ?thesis
    proof (cases "snd (ProcessWrite wr (Suc k) (q\<lparr>outbuf := drop n (outbuf q)\<rparr>)) = []")
      case True
      have "sock (q\<lparr>outbuf := drop n (outbuf q)\<rparr>) = NO_SOCKET \<or> outbuf (q\<lparr>outbuf := drop n (outbuf q)\<rparr>) = []"
      proof (rule ccontr)
        assume "\<not> ?thesis"
        then have "snd (ProcessWrite wr (Suc k) (q\<lparr>outbuf := drop n (outbuf q)\<rparr>)) \<noteq> []"
          by (cases rule: ProcessWrite_cases [where q = "q\<lparr>outbuf := drop n (outbuf q)\<rparr>" and wr = wr and k = "Suc k"])
             (simp_all add: ProcessWrite_error ProcessWrite_short ProcessWrite_full)
        with True show False by simp
      qed
      with full show ?thesis by (simp add: ProcessWrite_full ProcessWrite_idle)
    next
      case False
      with full "1.prems"
        "1.IH" [of "min (length (outbuf q)) 512" n "q\<lparr>outbuf := drop n (outbuf q)\<rparr>"]
      show ?thesis by (simp add: ProcessWrite_full)
    qed
  qed
qed

lemma ProcessWrite_nonempty:
  "sock q \<noteq> NO_SOCKET \<Longrightarrow> outbuf q \<noteq> [] \<Longrightarrow> snd (ProcessWrite wr k q) \<noteq> []"
  by (cases rule: ProcessWrite_cases [where q = q and wr = wr and k = k])
     (simp_all add: ProcessWrite_error ProcessWrite_short ProcessWrite_full)

lemma butlast_all_last:
  "list_all P (butlast xs) \<Longrightarrow> j < length xs \<Longrightarrow> \<not> P (xs ! j) \<Longrightarrow> Suc j = length xs"
proof (rule ccontr)
  assume a: "list_all P (butlast xs)" "j < length xs" "\<not> P (xs ! j)" "Suc j \<noteq> length xs"
  then have "j < length (butlast xs)" by simp
  with a(1) have "P (butlast xs ! j)" by (simp add: list_all_length)
  with \<open>j < length (butlast xs)\<close> a(3) show False by (simp add: nth_butlast)
qed

text \<open>
  Claim C9. One pass of \<open>ProcessWrite\<close> makes no call of \<open>write\<close> when the socket is dead
  or nothing is pending, and at least one otherwise. Call number \<open>j\<close> of the pass gets the
  \<open>j\<close>-th result of the system, and offers what is pending after the earlier calls, capped
  at 512 bytes (and never zero bytes). A call that does not write all it offered, be it an
  error such as would-block or a short write, is the last of the pass. The buffer after the
  pass is the buffer before it without the bytes written, taken from the front, so a failed
  call removes nothing and a short write leaves the remainder queued; no other field of
  the player changes. When the last call wrote all it offered, nothing is pending.
\<close>

theorem ProcessWrite_pass:
  "(case ProcessWrite wr k q of
      (q', calls) \<Rightarrow>
        q' = q\<lparr>outbuf := drop (bytes_written calls) (outbuf q)\<rparr> \<and>
        (calls = [] \<longleftrightarrow> sock q = NO_SOCKET \<or> outbuf q = []) \<and>
        (\<forall>j < length calls.
           calls ! j = (min (length (outbuf q) - bytes_written (take j calls)) 512, wr (k + j)) \<and>
           0 < fst (calls ! j) \<and> fst (calls ! j) \<le> 512 \<and>
           (\<not> is_full_write (calls ! j) \<longrightarrow> Suc j = length calls)) \<and>
        (calls \<noteq> [] \<and> is_full_write (last calls) \<longrightarrow> outbuf q' = []))"
proof -
  obtain q' calls where r: "ProcessWrite wr k q = (q', calls)"
    by (cases "ProcessWrite wr k q") auto
  have 1: "q' = q\<lparr>outbuf := drop (bytes_written calls) (outbuf q)\<rparr>"
    using ProcessWrite_buffer [of wr k q] r by simp
  have 2: "calls = [] \<longleftrightarrow> sock q = NO_SOCKET \<or> outbuf q = []"
    using ProcessWrite_nonempty [of q wr k] ProcessWrite_idle [of q wr k] r by auto
  have 3: "calls ! j = (min (length (outbuf q) - bytes_written (take j calls)) 512, wr (k + j))"
    if "j < length calls" for j
    using ProcessWrite_calls [of j wr k q] r that by simp
  have 4: "0 < fst (calls ! j) \<and> fst (calls ! j) \<le> 512" if "j < length calls" for j
    using ProcessWrite_cap [of wr k q] r that by (simp add: list_all_length)
  have 5: "Suc j = length calls" if "j < length calls" "\<not> is_full_write (calls ! j)" for j
    using ProcessWrite_stops [of wr k q] r that butlast_all_last [of is_full_write calls j] by simp
  have 6: "outbuf q' = []" if "calls \<noteq> []" "is_full_write (last calls)"
    using ProcessWrite_drained [of wr k q] r that by simp
  from 1 2 3 4 5 6 show ?thesis
    unfolding r by simp
qed

text \<open>The theorem at work: three bytes are pending and the system takes two of them.\<close>

theorem ProcessWrite_pass_witness:
  "ProcessWrite (\<lambda>k. Written 2) 0 ((example_player ''Ann'' 5 ePlaying 1000)\<lparr>outbuf := ''abc''\<rparr>)
     = ((example_player ''Ann'' 5 ePlaying 1000)\<lparr>outbuf := ''c''\<rparr>, [(3, Written 2)])"
proof -
  define q where "q = (example_player ''Ann'' 5 ePlaying 1000)\<lparr>outbuf := ''abc''\<rparr>"
  obtain q' calls where r: "ProcessWrite (\<lambda>k. Written 2) 0 q = (q', calls)"
    by (cases "ProcessWrite (\<lambda>k. Written 2) 0 q") auto
  have s: "sock q \<noteq> NO_SOCKET" "outbuf q = ''abc''"
    by (simp_all add: q_def example_player_def NO_SOCKET_def)
  note p = ProcessWrite_pass [where wr = "\<lambda>k. Written 2" and k = 0 and q = q, unfolded r prod.case]
  from p have p1: "q' = q\<lparr>outbuf := drop (bytes_written calls) (outbuf q)\<rparr>"
    by (rule conjunct1)
  from p have p2: "calls = [] \<longleftrightarrow> sock q = NO_SOCKET \<or> outbuf q = []"
    by (rule conjunct2 [THEN conjunct1])
  from p have p3: "\<forall>j < length calls.
           calls ! j = (min (length (outbuf q) - bytes_written (take j calls)) 512, Written 2) \<and>
           0 < fst (calls ! j) \<and> fst (calls ! j) \<le> 512 \<and>
           (\<not> is_full_write (calls ! j) \<longrightarrow> Suc j = length calls)"
    by (rule conjunct2 [THEN conjunct2, THEN conjunct1])
  from p2 s have l: "0 < length calls" by simp
  note p4 = p3 [THEN spec, THEN mp, OF l]
  from p4 have c0: "calls ! 0 = (min (length (outbuf q) - bytes_written (take 0 calls)) 512, Written 2)"
    by (rule conjunct1)
  then have c0': "calls ! 0 = (3, Written 2)"
    using s by simp
  then have nf: "\<not> is_full_write (calls ! 0)"
    by (simp add: is_full_write_def)
  from p4 have "\<not> is_full_write (calls ! 0) \<longrightarrow> Suc 0 = length calls"
    by (rule conjunct2 [THEN conjunct2, THEN conjunct2])
  with nf have "Suc 0 = length calls"
    by (rule mp [rotated])
  with c0' have c: "calls = [(3, Written 2)]"
    by (cases calls) simp_all
  have d: "drop (bytes_written calls) (outbuf q) = ''c''"
    unfolding c s by simp
  have "q' = q\<lparr>outbuf := ''c''\<rparr>"
    using p1 unfolding d .
  with c r show ?thesis
    unfolding q_def by simp
qed

section \<open>Basic facts about the state\<close>

lemma pl_upd_same: "p < length (playerlist w) \<Longrightarrow> pl (upd p f w) p = f (pl w p)"
  by (simp add: pl_def upd_def)

lemma pl_upd_other: "i \<noteq> p \<Longrightarrow> pl (upd p f w) i = pl w i"
  by (simp add: pl_def upd_def)

lemma length_upd: "length (playerlist (upd p f w)) = length (playerlist w)"
  by (simp add: upd_def)

lemma upd_fields:
  "roommap (upd p f w) = roommap w" "messagemap (upd p f w) = messagemap w"
  "directionset (upd p f w) = directionset w" "badnameset (upd p f w) = badnameset w"
  "bStopNow (upd p f w) = bStopNow w" "playerfiles (upd p f w) = playerfiles w"
  "unwritable (upd p f w) = unwritable w" "console (upd p f w) = console w"
  by (simp_all add: upd_def)

lemma pl_out_same:
  "p < length (playerlist w) \<Longrightarrow> pl (out p txt w) p = (pl w p)\<lparr>outbuf := outbuf (pl w p) @ txt\<rparr>"
  by (simp add: out_def pl_upd_same)

lemma pl_out_other: "i \<noteq> p \<Longrightarrow> pl (out p txt w) i = pl w i"
  by (simp add: out_def pl_upd_other)

lemma length_out: "length (playerlist (out p txt w)) = length (playerlist w)"
  by (simp add: out_def length_upd)

lemma out_fields:
  "roommap (out p txt w) = roommap w" "messagemap (out p txt w) = messagemap w"
  "directionset (out p txt w) = directionset w" "badnameset (out p txt w) = badnameset w"
  "bStopNow (out p txt w) = bStopNow w" "playerfiles (out p txt w) = playerfiles w"
  "unwritable (out p txt w) = unwritable w" "console (out p txt w) = console w"
  by (simp_all add: out_def upd_fields)

section \<open>Movement\<close>

lemma DoDirection_no_exit:
  "map_of (roommap w) (room (pl w p)) = Some r \<Longrightarrow> map_of (exits r) d = None \<Longrightarrow>
     DoDirection doCommand p d w = Some (Some ''You cannot go that way.'', w)"
  by (simp add: DoDirection_def FindRoom_def)

lemma DoDirection_dangling:
  "map_of (roommap w) (room (pl w p)) = Some r \<Longrightarrow> map_of (exits r) d = Some vnum \<Longrightarrow>
   map_of (roommap w) vnum = None \<Longrightarrow>
     DoDirection doCommand p d w = Some (Some (''Room number '' @ show_int vnum @ '' does not exist.''), w)"
  by (simp add: DoDirection_def FindRoom_def PlayerToRoom_def)

lemma DoDirection_success:
  "map_of (roommap w) (room (pl w p)) = Some r \<Longrightarrow> DoDirection doCommand p d w = Some (None, w') \<Longrightarrow>
     \<exists>vnum. map_of (exits r) d = Some vnum \<and> map_of (roommap w) vnum \<noteq> None"
  by (auto simp add: DoDirection_def FindRoom_def PlayerToRoom_def split: option.splits)

lemma DoCommand_eta [simp]: "(\<lambda>q c. ProcessCommand n q (istringstream c)) = DoCommand n"
  by (intro ext) (simp add: DoCommand_def)

lemma ProcessCommand_direction:
  "fst (get_string [] sArgs) = command \<Longrightarrow> ci_find command (directionset w) \<Longrightarrow>
     ProcessCommand (Suc n) p sArgs w = DoDirection (DoCommand n) p command w"
  by (auto split: prod.splits)

text \<open>
  Claim C4. Player \<open>p\<close> is playing, in a room \<open>r\<close> of the room map, and sends a line
  whose first word is a direction of the direction set. When the exit map of \<open>r\<close> has no
  entry for that word, or has one whose destination is not in the room map, the whole
  effect of the line is the error text and the prompt appended to the output of \<open>p\<close>: the
  room of \<open>p\<close> is the same, and no other session has changed, so nothing was broadcast.
  And the command returns without an error, or changes the room of \<open>p\<close> at all, only when
  the exit map has an entry for the word and the destination is a room of the room map.
\<close>

theorem movement_failure:
  assumes "p < length (playerlist w)" and "connstate (pl w p) = ePlaying"
    and "fst (get_string [] (istringstream line)) = command"
    and "ci_find command (directionset w)"
    and "map_of (roommap w) (room (pl w p)) = Some r"
  shows "(map_of (exits r) command = None \<longrightarrow>
            ProcessPlayerInput (Suc n) p line w
              = Some (out p (prompt (pl w p)) (out p ''You cannot go that way.\<newline>'' w))) \<and>
         (\<forall>vnum. map_of (exits r) command = Some vnum \<and> map_of (roommap w) vnum = None \<longrightarrow>
            ProcessPlayerInput (Suc n) p line w
              = Some (out p (prompt (pl w p))
                       (out p (''Room number '' @ show_int vnum @ '' does not exist.\<newline>'') w))) \<and>
         (\<forall>e w'. ProcessCommand (Suc n) p (istringstream line) w = Some (e, w') \<and>
                  (e = None \<or> room (pl w' p) \<noteq> room (pl w p)) \<longrightarrow>
            (\<exists>vnum. map_of (exits r) command = Some vnum \<and> map_of (roommap w) vnum \<noteq> None)) \<and>
         (\<forall>txt. room (pl (out p txt w) p) = room (pl w p) \<and>
            (\<forall>i. i \<noteq> p \<longrightarrow> pl (out p txt w) i = pl w i))"
proof -
  note c = ProcessCommand_direction [OF assms(3) assms(4), of n p]
  have 1: "ProcessPlayerInput (Suc n) p line w
              = Some (out p (prompt (pl w p)) (out p ''You cannot go that way.\<newline>'' w))"
    if "map_of (exits r) command = None"
    using assms(1,2) c DoDirection_no_exit [OF assms(5) that, of "DoCommand n"]
    by (simp add: ProcessPlayerInput_def pl_out_same)
  have 2: "ProcessPlayerInput (Suc n) p line w
              = Some (out p (prompt (pl w p))
                       (out p (''Room number '' @ show_int vnum @ '' does not exist.\<newline>'') w))"
    if "map_of (exits r) command = Some vnum" "map_of (roommap w) vnum = None" for vnum
    using assms(1,2) c DoDirection_dangling [OF assms(5) that, of "DoCommand n"]
    by (simp add: ProcessPlayerInput_def pl_out_same)
  have 3: "\<exists>vnum. map_of (exits r) command = Some vnum \<and> map_of (roommap w) vnum \<noteq> None"
    if "ProcessCommand (Suc n) p (istringstream line) w = Some (e, w')"
      and "e = None \<or> room (pl w' p) \<noteq> room (pl w p)" for e w'
  proof (cases "map_of (exits r) command")
    case None
    from DoDirection_no_exit [OF assms(5) None, of "DoCommand n"] c that show ?thesis
      by auto
  next
    case (Some vnum)
    show ?thesis
    proof (cases "map_of (roommap w) vnum")
      case None
      from DoDirection_dangling [OF assms(5) Some None, of "DoCommand n"] c that show ?thesis
        by auto
    next
      case (Some r')
      with \<open>map_of (exits r) command = Some vnum\<close> show ?thesis
        by simp
    qed
  qed
  have 4: "room (pl (out p t w) p) = room (pl w p) \<and> (\<forall>i. i \<noteq> p \<longrightarrow> pl (out p t w) i = pl w i)" for t
    using assms(1) by (simp add: pl_out_same pl_out_other)
  from 1 2 3 4 show ?thesis by blast
qed

text \<open>The theorem at work in the example world: \<open>u\<close> is a direction without an exit in
  room 1000, and the exit \<open>d\<close> of room 1000 leads to room 2000, which does not exist.\<close>

theorem movement_failure_witness:
  "ProcessPlayerInput 1 0 ''u'' (example_world [example_player ''Ann'' 5 ePlaying 1000])
     = Some (out 0 ''> '' (out 0 ''You cannot go that way.\<newline>''
         (example_world [example_player ''Ann'' 5 ePlaying 1000]))) \<and>
   ProcessPlayerInput 1 0 ''d'' (example_world [example_player ''Ann'' 5 ePlaying 1000])
     = Some (out 0 ''> '' (out 0 ''Room number 2000 does not exist.\<newline>''
         (example_world [example_player ''Ann'' 5 ePlaying 1000])))"
proof -
  let ?w = "example_world [example_player ''Ann'' 5 ePlaying 1000]"
  let ?r = "\<lparr>description = ''A room.\<newline>'', exits = [(''d'', 2000), (''n'', 1001)]\<rparr>"
  have h: "0 < length (playerlist ?w)" "connstate (pl ?w 0) = ePlaying"
    "map_of (roommap ?w) (room (pl ?w 0)) = Some ?r" "prompt (pl ?w 0) = ''> ''"
    by (simp_all add: example_world_def example_player_def pl_def PROMPT_def)
  have u: "fst (get_string [] (istringstream ''u'')) = ''u''" "ci_find ''u'' (directionset ?w)"
    "map_of (exits ?r) ''u'' = None"
    by code_simp+
  have d: "fst (get_string [] (istringstream ''d'')) = ''d''" "ci_find ''d'' (directionset ?w)"
    "map_of (exits ?r) ''d'' = Some 2000 \<and> map_of (roommap ?w) 2000 = None"
    "show_int 2000 = ''2000''"
    by code_simp+
  from movement_failure [OF h(1) h(2) u(1) u(2) h(3), of 0] u(3) h(4)
  have 1: "ProcessPlayerInput 1 0 ''u'' ?w = Some (out 0 ''> '' (out 0 ''You cannot go that way.\<newline>'' ?w))"
    by simp
  from movement_failure [OF h(1) h(2) d(1) d(2) h(3), of 0] d(3) d(4) h(4)
  have 2: "ProcessPlayerInput 1 0 ''d'' ?w = Some (out 0 ''> '' (out 0 ''Room number 2000 does not exist.\<newline>'' ?w))"
    by simp
  from 1 2 show ?thesis by simp
qed

section \<open>Setting and clearing flags\<close>

lemma pl_upd: "pl (upd p f w) i = (if i = p \<and> p < length (playerlist w) then f (pl w p) else pl w i)"
  by (cases "i = p") (auto simp add: pl_def upd_def list_update_beyond)

lemma flags_out: "flags (pl (out p t w) i) = flags (pl w i)"
  by (simp add: out_def pl_upd)

lemma ciLess_irrefl: "\<not> ciLess x x"
  by (induction x) (simp_all add: compare_less_def)

lemma ci_equiv_refl: "ci_equiv x x"
  by (simp add: ci_equiv_def ciLess_irrefl)

lemma ci_find_insert_same: "ci_find x (ci_insert x st)"
  by (induction st) (auto simp add: ci_find_def ci_equiv_refl ci_equiv_def)

lemma ci_find_insert_mono: "ci_find x st \<Longrightarrow> ci_find x (ci_insert y st)"
  by (induction st) (auto simp add: ci_find_def)

lemma ci_erase_insert: "\<not> ci_find x st \<Longrightarrow> ci_erase x (ci_insert x st) = st"
  by (induction st) (auto simp add: ci_find_def ci_equiv_refl ci_equiv_def)

lemma find_if_less: "find_if P xs = Some i \<Longrightarrow> i < length xs"
  by (induction xs arbitrary: i) (auto split: if_splits)

lemma find_if_map: "find_if P xs = find_if (\<lambda>b. b) (map P xs)"
  by (induction xs) auto

lemma FindPlayer_upd:
  "p < length (playerlist w) \<Longrightarrow> (\<And>q. IsPlaying (f q) = IsPlaying q) \<Longrightarrow>
   (\<And>q. playername (f q) = playername q) \<Longrightarrow> FindPlayer name (upd p f w) = FindPlayer name w"
proof -
  assume a: "p < length (playerlist w)" "\<And>q. IsPlaying (f q) = IsPlaying q"
    "\<And>q. playername (f q) = playername q"
  have "map (findPlayerName name) ((playerlist w)[p := f (playerlist w ! p)])
      = map (findPlayerName name) (playerlist w)"
    using a by (simp add: map_update findPlayerName_def list_update_same_conv)
  then show ?thesis
    by (simp add: FindPlayer_def upd_def find_if_map [of "findPlayerName name"])
qed

lemma FindPlayer_out:
  "p < length (playerlist w) \<Longrightarrow> FindPlayer name (out p t w) = FindPlayer name w"
  by (simp add: out_def FindPlayer_upd IsPlaying_def Connected_def)

lemma GetPlayer_message:
  "GetPlayer p a m b w = Inr x \<Longrightarrow> GetPlayer p a m' b w = Inr x"
  by (auto simp add: GetPlayer_def Let_def split: prod.splits if_splits option.splits)

lemma GetPlayer_world:
  "(\<And>name. FindPlayer name w' = FindPlayer name w) \<Longrightarrow> GetPlayer p a m b w' = GetPlayer p a m b w"
  by (auto simp add: GetPlayer_def split: prod.splits)

lemma GetPlayer_less:
  "p < length (playerlist w) \<Longrightarrow> GetPlayer p a m b w = Inr (t, is1) \<Longrightarrow> t < length (playerlist w)"
  by (auto simp add: GetPlayer_def Let_def FindPlayer_def split: prod.splits if_splits option.splits
      dest: find_if_less)

lemma GetFlag_message:
  "GetFlag a m = Inr x \<Longrightarrow> GetFlag a m' = Inr x"
  by (auto simp add: GetFlag_def Let_def split: prod.splits if_splits)

lemma DoSetFlag_done:
  assumes "DoSetFlag p sArgs w = (None, w1)"
  obtains t is1 flag is2 where
    "HaveFlag ''can_setflag'' (pl w p)"
    "GetPlayer p sArgs ''Usage: setflag <who> <flag>'' False w = Inr (t, is1)"
    "GetFlag is1 ''Set which flag?'' = Inr (flag, is2)"
    "NoMore is2 = None"
    "\<not> ci_find flag (flags (pl w t))"
    "w1 = out p (''You set the flag '' @ [CHR 0x27] @ flag @ [CHR 0x27] @ '' for ''
                 @ playername (pl (upd t (\<lambda>q. q\<lparr>flags := ci_insert flag (flags q)\<rparr>) w) t)
                 @ ''\<newline>'')
            (upd t (\<lambda>q. q\<lparr>flags := ci_insert flag (flags q)\<rparr>) w)"
  using assms
  by (auto simp add: DoSetFlag_def NeedFlag_def Let_def
      split: option.splits sum.splits prod.splits if_splits)

lemma DoSetFlag_error: "DoSetFlag p sArgs w = (Some e, w') \<Longrightarrow> w' = w"
  by (auto simp add: DoSetFlag_def NeedFlag_def Let_def
      split: option.splits sum.splits prod.splits if_splits)

lemma DoClearFlag_error: "DoClearFlag p sArgs w = (Some e, w') \<Longrightarrow> w' = w"
  by (auto simp add: DoClearFlag_def NeedFlag_def Let_def
      split: option.splits sum.splits prod.splits if_splits)

lemma DoSetFlag_already:
  "HaveFlag ''can_setflag'' (pl w p) \<Longrightarrow>
   GetPlayer p sArgs ''Usage: setflag <who> <flag>'' False w = Inr (t, is1) \<Longrightarrow>
   GetFlag is1 ''Set which flag?'' = Inr (flag, is2) \<Longrightarrow> NoMore is2 = None \<Longrightarrow>
   ci_find flag (flags (pl w t)) \<Longrightarrow>
     DoSetFlag p sArgs w = (Some ''Flag already set.'', w)"
  by (simp add: DoSetFlag_def NeedFlag_def)

lemma DoClearFlag_unset:
  "HaveFlag ''can_setflag'' (pl w p) \<Longrightarrow>
   GetPlayer p sArgs ''Usage: clearflag <who> <flag>'' False w = Inr (t, is1) \<Longrightarrow>
   GetFlag is1 ''Clear which flag?'' = Inr (flag, is2) \<Longrightarrow> NoMore is2 = None \<Longrightarrow>
   \<not> ci_find flag (flags (pl w t)) \<Longrightarrow>
     DoClearFlag p sArgs w = (Some ''Flag not set.'', w)"
  by (simp add: DoClearFlag_def NeedFlag_def)

lemma DoClearFlag_after_set:
  assumes p: "p < length (playerlist w)" and s: "DoSetFlag p sArgs w = (None, w1)"
  shows "\<exists>w2. DoClearFlag p sArgs w1 = (None, w2) \<and> (\<forall>i. flags (pl w2 i) = flags (pl w i))"
proof -
  from s obtain t is1 flag is2 where
    h: "HaveFlag ''can_setflag'' (pl w p)"
    and g: "GetPlayer p sArgs ''Usage: setflag <who> <flag>'' False w = Inr (t, is1)"
    and f: "GetFlag is1 ''Set which flag?'' = Inr (flag, is2)"
    and n: "NoMore is2 = None"
    and c: "\<not> ci_find flag (flags (pl w t))"
    and w1: "w1 = out p (''You set the flag '' @ [CHR 0x27] @ flag @ [CHR 0x27] @ '' for ''
                 @ playername (pl (upd t (\<lambda>q. q\<lparr>flags := ci_insert flag (flags q)\<rparr>) w) t)
                 @ ''\<newline>'')
            (upd t (\<lambda>q. q\<lparr>flags := ci_insert flag (flags q)\<rparr>) w)"
    by (rule DoSetFlag_done)
  from p g have t: "t < length (playerlist w)"
    by (rule GetPlayer_less)
  let ?u = "upd t (\<lambda>q. q\<lparr>flags := ci_insert flag (flags q)\<rparr>) w"
  have fl: "flags (pl w1 i) = (if i = t then ci_insert flag (flags (pl w t)) else flags (pl w i))" for i
    using p t unfolding w1
    by (cases "i = p"; cases "i = t") (simp_all add: pl_out_same pl_out_other pl_upd_same pl_upd_other length_upd)
  have len: "length (playerlist w1) = length (playerlist w)"
    unfolding w1 by (simp add: length_out length_upd)
  have fp: "FindPlayer name w1 = FindPlayer name w" for name
    unfolding w1 using p t
    by (simp add: FindPlayer_out length_upd FindPlayer_upd IsPlaying_def Connected_def)
  have h1: "HaveFlag ''can_setflag'' (pl w1 p)"
    using h fl [of p] by (auto simp add: HaveFlag_def ci_find_insert_mono)
  have g1: "GetPlayer p sArgs ''Usage: clearflag <who> <flag>'' False w1 = Inr (t, is1)"
    using GetPlayer_message [OF g] GetPlayer_world [of w1 w, OF fp] by simp
  have f1: "GetFlag is1 ''Clear which flag?'' = Inr (flag, is2)"
    using f by (rule GetFlag_message)
  have c1: "ci_find flag (flags (pl w1 t))"
    using fl [of t] by (simp add: ci_find_insert_same)
  let ?w2 = "out p (''You clear the flag '' @ [CHR 0x27] @ flag @ [CHR 0x27] @ '' for ''
                 @ playername (pl (upd t (\<lambda>q. q\<lparr>flags := ci_erase flag (flags q)\<rparr>) w1) t)
                 @ ''\<newline>'')
            (upd t (\<lambda>q. q\<lparr>flags := ci_erase flag (flags q)\<rparr>) w1)"
  have r: "DoClearFlag p sArgs w1 = (None, ?w2)"
    using h1 g1 f1 n c1 by (simp add: DoClearFlag_def NeedFlag_def Let_def)
  have "flags (pl ?w2 i) = flags (pl w i)" for i
    using p t len fl [of i] fl [of t] c
    by (cases "i = p"; cases "i = t")
       (simp_all add: pl_out_same pl_out_other pl_upd_same pl_upd_other length_upd ci_erase_insert)
  with r show ?thesis by blast
qed

lemma flag_arguments_parts:
  assumes "flag_arguments p sArgs w = Some (t, flag)"
  obtains is1 is2 where "\<forall>m. GetPlayer p sArgs m False w = Inr (t, is1)"
    "\<forall>m. GetFlag is1 m = Inr (flag, is2)" "NoMore is2 = None"
proof -
  from assms obtain is1 is2 where a: "GetPlayer p sArgs [] False w = Inr (t, is1)"
    "GetFlag is1 [] = Inr (flag, is2)" "NoMore is2 = None"
    by (auto simp add: flag_arguments_def split: sum.splits prod.splits if_splits)
  show thesis
    using that [of is1 is2] GetPlayer_message [OF a(1)] GetFlag_message [OF a(2)] a(3) by blast
qed

text \<open>
  Claim C7. Player \<open>p\<close> holds the flag \<open>can_setflag\<close> and the argument text names the target
  \<open>t\<close> and a flag. If the target has the flag, \<open>setflag\<close> throws and the world is as before.
  If the target does not have it, \<open>clearflag\<close> throws and the world is as before, while
  \<open>setflag\<close> returns normally and has inserted the flag. And whenever \<open>setflag\<close> has returned
  normally, \<open>clearflag\<close> with the same arguments returns normally in the resulting world, and
  then every player has the flag set it had before the \<open>setflag\<close>. Whatever the arguments,
  a \<open>setflag\<close> or \<open>clearflag\<close> that throws leaves the world as it was.
\<close>

theorem flag_commands:
  assumes "p < length (playerlist w)" and "HaveFlag ''can_setflag'' (pl w p)"
    and "flag_arguments p sArgs w = Some (t, flag)"
  shows "(ci_find flag (flags (pl w t)) \<longrightarrow>
            DoSetFlag p sArgs w = (Some ''Flag already set.'', w)) \<and>
         (\<not> ci_find flag (flags (pl w t)) \<longrightarrow>
            DoClearFlag p sArgs w = (Some ''Flag not set.'', w) \<and>
            fst (DoSetFlag p sArgs w) = None \<and>
            flags (pl (snd (DoSetFlag p sArgs w)) t) = ci_insert flag (flags (pl w t))) \<and>
         (\<forall>w1. DoSetFlag p sArgs w = (None, w1) \<longrightarrow>
            (\<exists>w2. DoClearFlag p sArgs w1 = (None, w2) \<and> (\<forall>i. flags (pl w2 i) = flags (pl w i)))) \<and>
         (\<forall>a e w'. DoSetFlag p a w = (Some e, w') \<or> DoClearFlag p a w = (Some e, w') \<longrightarrow> w' = w)"
proof -
  from assms(3) obtain is1 is2 where g0: "\<forall>m. GetPlayer p sArgs m False w = Inr (t, is1)"
    and f0: "\<forall>m. GetFlag is1 m = Inr (flag, is2)" and n: "NoMore is2 = None"
    by (rule flag_arguments_parts)
  note g = g0 [THEN spec] and f = f0 [THEN spec]
  from assms(1) g have t: "t < length (playerlist w)"
    by (rule GetPlayer_less)
  have 1: "DoSetFlag p sArgs w = (Some ''Flag already set.'', w)" if "ci_find flag (flags (pl w t))"
    using assms(2) g f n that by (rule DoSetFlag_already)
  have 2: "DoClearFlag p sArgs w = (Some ''Flag not set.'', w)" if "\<not> ci_find flag (flags (pl w t))"
    using assms(2) g f n that by (rule DoClearFlag_unset)
  have 3: "fst (DoSetFlag p sArgs w) = None \<and>
      flags (pl (snd (DoSetFlag p sArgs w)) t) = ci_insert flag (flags (pl w t))"
    if "\<not> ci_find flag (flags (pl w t))"
    using assms(1,2) t g f n that
    by (simp add: DoSetFlag_def NeedFlag_def Let_def flags_out pl_upd_same)
  have 4: "\<exists>w2. DoClearFlag p sArgs w1 = (None, w2) \<and> (\<forall>i. flags (pl w2 i) = flags (pl w i))"
    if "DoSetFlag p sArgs w = (None, w1)" for w1
    using assms(1) that by (rule DoClearFlag_after_set)
  have 5: "w' = w" if "DoSetFlag p a w = (Some e, w') \<or> DoClearFlag p a w = (Some e, w')" for a e w'
    using that DoSetFlag_error [of p a w e w'] DoClearFlag_error [of p a w e w'] by blast
  from 1 2 3 4 5 show ?thesis by blast
qed

text \<open>The theorem at work: Ann may set flags; she sets and clears \<open>gagged\<close> for herself, and
  tries to set \<open>can_SetFlag\<close>, which she has up to case.\<close>

theorem flag_commands_witness:
  "DoSetFlag 0 (istringstream ''me can_SetFlag'') flag_world = (Some ''Flag already set.'', flag_world) \<and>
   DoClearFlag 0 (istringstream ''me gagged'') flag_world = (Some ''Flag not set.'', flag_world) \<and>
   fst (DoSetFlag 0 (istringstream ''me gagged'') flag_world) = None \<and>
   flags (pl (snd (DoSetFlag 0 (istringstream ''me gagged'') flag_world)) 0) = [''can_setflag'', ''gagged''] \<and>
   fst (DoClearFlag 0 (istringstream ''me gagged'')
          (snd (DoSetFlag 0 (istringstream ''me gagged'') flag_world))) = None \<and>
   flags (pl (snd (DoClearFlag 0 (istringstream ''me gagged'')
          (snd (DoSetFlag 0 (istringstream ''me gagged'') flag_world)))) 0) = [''can_setflag'']"
proof -
  have h: "0 < length (playerlist flag_world)" "HaveFlag ''can_setflag'' (pl flag_world 0)"
    by code_simp+
  have a: "flag_arguments 0 (istringstream ''me can_SetFlag'') flag_world = Some (0, ''can_SetFlag'')"
    "ci_find ''can_SetFlag'' (flags (pl flag_world 0))"
    by code_simp+
  have b: "flag_arguments 0 (istringstream ''me gagged'') flag_world = Some (0, ''gagged'')"
    "\<not> ci_find ''gagged'' (flags (pl flag_world 0))"
    "ci_insert ''gagged'' (flags (pl flag_world 0)) = [''can_setflag'', ''gagged'']"
    "flags (pl flag_world 0) = [''can_setflag'']"
    by code_simp+
  note ta = flag_commands [OF h a(1)]
  note tb = flag_commands [OF h b(1)]
  from ta a(2) have 1: "DoSetFlag 0 (istringstream ''me can_SetFlag'') flag_world = (Some ''Flag already set.'', flag_world)"
    by blast
  from tb b(2) have 2: "DoClearFlag 0 (istringstream ''me gagged'') flag_world = (Some ''Flag not set.'', flag_world)"
    and 3: "fst (DoSetFlag 0 (istringstream ''me gagged'') flag_world) = None"
    and 4: "flags (pl (snd (DoSetFlag 0 (istringstream ''me gagged'') flag_world)) 0)
              = ci_insert ''gagged'' (flags (pl flag_world 0))"
    by blast+
  from 3 have "DoSetFlag 0 (istringstream ''me gagged'') flag_world
      = (None, snd (DoSetFlag 0 (istringstream ''me gagged'') flag_world))"
    by (simp add: prod_eq_iff)
  with tb obtain w2 where 5: "DoClearFlag 0 (istringstream ''me gagged'')
          (snd (DoSetFlag 0 (istringstream ''me gagged'') flag_world)) = (None, w2)"
    and 6: "\<forall>i. flags (pl w2 i) = flags (pl flag_world i)"
    by blast
  from 1 2 3 4 5 6 b(3) b(4) show ?thesis
    by simp
qed

section \<open>The password state\<close>

lemma upd_upd: "upd p g (upd p f w) = upd p (\<lambda>q. g (f q)) w"
  by (cases "p < length (playerlist w)") (simp_all add: upd_def list_update_beyond)

lemma upd_cong: "f (pl w p) = g (pl w p) \<Longrightarrow> upd p f w = upd p g w"
  by (simp add: upd_def pl_def)

lemma out_out: "out p b (out p a w) = out p (a @ b) w"
  by (simp add: out_def upd_upd)

lemma pl_out: "pl (out p t w) i = (if i = p \<and> p < length (playerlist w)
     then (pl w p)\<lparr>outbuf := outbuf (pl w p) @ t\<rparr> else pl w i)"
  by (simp add: out_def pl_upd)

lemma ProcessPlayerPassword_try_wrong:
  "wrong_password line (pl w p) \<Longrightarrow>
     \<exists>e. ProcessPlayerPassword_try doCommand p (istringstream line) w = Some (Some e, w)"
  by (auto simp add: wrong_password_def ProcessPlayerPassword_try_def split: prod.splits)

lemma ProcessPlayerPassword_try_blocked:
  "fst (get_string [] (istringstream line)) = password (pl w p) \<Longrightarrow> password (pl w p) \<noteq> [] \<Longrightarrow>
   HaveFlag ''blocked'' (pl w p) \<Longrightarrow>
     ProcessPlayerPassword_try doCommand p (istringstream line) w
       = Some (Some ''You are not permitted to connect.'',
               upd p (\<lambda>q. (ClosePlayer q)\<lparr>prompt := ''Goodbye.\<newline>''\<rparr>) w)"
  by (auto simp add: ProcessPlayerPassword_try_def split: prod.splits)

text \<open>What the \<open>catch\<close> clause of \<open>ProcessPlayerPassword\<close>, and then \<open>ProcessPlayerInput\<close>, make of
  an error thrown in the \<open>try\<close> block.\<close>

lemma password_error_input:
  assumes t: "ProcessPlayerPassword_try (DoCommand n) p (istringstream line) w = Some (Some e, w1)"
    and s: "connstate (pl w p) = eAwaitingPassword"
    and p: "p < length (playerlist w1)"
  shows "ProcessPlayerInput n p line w =
     Some (upd p (\<lambda>q. if MAX_PASSWORD_ATTEMPTS \<le> badPasswordCount q + 1
                       then (Init q)\<lparr>badPasswordCount := badPasswordCount q + 1,
                              outbuf := outbuf q @ ''Too many attempts to guess the password!\<newline>''
                                        @ e @ ''\<newline>'' @ prompt (Init q)\<rparr>
                       else q\<lparr>badPasswordCount := badPasswordCount q + 1,
                              outbuf := outbuf q @ e @ ''\<newline>'' @ prompt q\<rparr>) w1)"
  using t s p
  by (auto simp add: ProcessPlayerInput_def ProcessPlayerPassword_def Let_def pl_upd pl_out length_upd
      length_out out_def upd_upd Init_def intro!: upd_cong)

text \<open>
  Claim C10. Session \<open>p\<close> awaits a password, its loaded record has the flag \<open>blocked\<close>,
  and the line starts with the (non-empty) password of the record. Then the session does
  not enter \<open>ePlaying\<close>: it is marked closing, its failure counter goes up by one, and its
  output receives the line \<open>You are not permitted to connect.\<close> and then the prompt. When
  the counter reaches the maximum the session is also put back to \<open>eAwaitingName\<close>, as
  after any other failed attempt. No other session changes.
\<close>

theorem blocked_player_refused:
  assumes "p < length (playerlist w)" and "connstate (pl w p) = eAwaitingPassword"
    and "HaveFlag ''blocked'' (pl w p)" and "password (pl w p) \<noteq> []"
    and "fst (get_string [] (istringstream line)) = password (pl w p)"
  shows "\<exists>w'. ProcessPlayerInput n p line w = Some w' \<and>
           connstate (pl w' p) \<noteq> ePlaying \<and>
           connstate (pl w' p) = (if MAX_PASSWORD_ATTEMPTS \<le> badPasswordCount (pl w p) + 1
                                   then eAwaitingName else eAwaitingPassword) \<and>
           closing (pl w' p) \<and>
           badPasswordCount (pl w' p) = badPasswordCount (pl w p) + 1 \<and>
           prompt (pl w' p) = (if MAX_PASSWORD_ATTEMPTS \<le> badPasswordCount (pl w p) + 1
                               then prompt (Init (pl w p)) else ''Goodbye.\<newline>'') \<and>
           outbuf (pl w' p) = outbuf (pl w p)
             @ (if MAX_PASSWORD_ATTEMPTS \<le> badPasswordCount (pl w p) + 1
                then ''Too many attempts to guess the password!\<newline>'' else [])
             @ ''You are not permitted to connect.\<newline>'' @ prompt (pl w' p) \<and>
           (\<forall>i. i \<noteq> p \<longrightarrow> pl w' i = pl w i)"
proof -
  have t: "ProcessPlayerPassword_try (DoCommand n) p (istringstream line) w
       = Some (Some ''You are not permitted to connect.'',
               upd p (\<lambda>q. (ClosePlayer q)\<lparr>prompt := ''Goodbye.\<newline>''\<rparr>) w)"
    using assms(5,4,3) by (rule ProcessPlayerPassword_try_blocked)
  have l: "p < length (playerlist (upd p (\<lambda>q. (ClosePlayer q)\<lparr>prompt := ''Goodbye.\<newline>''\<rparr>) w))"
    using assms(1) by (simp add: length_upd)
  note r = password_error_input [OF t assms(2) l]
  show ?thesis
    unfolding r using assms(1,2)
    by (simp add: upd_upd pl_upd ClosePlayer_def Init_def)
qed

text \<open>The theorem at work: Ann is blocked and enters her password.\<close>

theorem blocked_player_refused_witness:
  "map_option (\<lambda>w'. (connstate (pl w' 0), closing (pl w' 0), badPasswordCount (pl w' 0), outbuf (pl w' 0)))
     (ProcessPlayerInput 0 0 ''secret''
        (example_world [(example_player ''Ann'' 5 eAwaitingPassword 1000)\<lparr>flags := [''blocked'']\<rparr>]))
   = Some (eAwaitingPassword, True, 1, ''You are not permitted to connect.\<newline>Goodbye.\<newline>'')"
proof -
  let ?w = "example_world [(example_player ''Ann'' 5 eAwaitingPassword 1000)\<lparr>flags := [''blocked'']\<rparr>]"
  have h: "0 < length (playerlist ?w)" "connstate (pl ?w 0) = eAwaitingPassword"
    "HaveFlag ''blocked'' (pl ?w 0)" "password (pl ?w 0) \<noteq> []"
    "fst (get_string [] (istringstream ''secret'')) = password (pl ?w 0)"
    by code_simp+
  have v: "badPasswordCount (pl ?w 0) = 0" "outbuf (pl ?w 0) = []"
    by code_simp+
  from blocked_player_refused [OF h, of 0] obtain w' where
    r: "ProcessPlayerInput 0 0 ''secret'' ?w = Some w'"
    and c: "connstate (pl w' 0) = (if MAX_PASSWORD_ATTEMPTS \<le> badPasswordCount (pl ?w 0) + 1
                                   then eAwaitingName else eAwaitingPassword)"
      "closing (pl w' 0)" "badPasswordCount (pl w' 0) = badPasswordCount (pl ?w 0) + 1"
      "outbuf (pl w' 0) = outbuf (pl ?w 0)
             @ (if MAX_PASSWORD_ATTEMPTS \<le> badPasswordCount (pl ?w 0) + 1
                then ''Too many attempts to guess the password!\<newline>'' else [])
             @ ''You are not permitted to connect.\<newline>'' @ prompt (pl w' 0)"
      "prompt (pl w' 0) = (if MAX_PASSWORD_ATTEMPTS \<le> badPasswordCount (pl ?w 0) + 1
                               then prompt (Init (pl ?w 0)) else ''Goodbye.\<newline>'')"
    by blast
  show ?thesis
    unfolding r using c v by (simp add: MAX_PASSWORD_ATTEMPTS_def)
qed

section \<open>Failed password attempts\<close>

text \<open>\<open>Load\<close> changes neither the connection state nor the failure counter.\<close>

lemma Load_result:
  "Load p w = Some (e, w') \<Longrightarrow>
     length (playerlist w') = length (playerlist w) \<and> connstate (pl w' p) = connstate (pl w p) \<and>
     badPasswordCount (pl w' p) = badPasswordCount (pl w p)"
  by (auto simp add: Load_def Let_def pl_upd length_upd split: option.splits prod.splits)

text \<open>The only way from \<open>eAwaitingName\<close> to \<open>eAwaitingPassword\<close> is the branch of
  \<open>ProcessPlayerName\<close> for an old player, which sets the failure counter to zero.\<close>

lemma name_entry_resets_counter:
  assumes "p < length (playerlist v)" and "connstate (pl v p) = eAwaitingName"
    and "ProcessPlayerInput n p l0 v = Some w" and "connstate (pl w p) = eAwaitingPassword"
  shows "badPasswordCount (pl w p) = 0 \<and> length (playerlist w) = length (playerlist v)"
proof -
  obtain name is1 where g: "get_string [] (istringstream l0) = (name, is1)"
    by (cases "get_string [] (istringstream l0)") auto
  let ?v1 = "upd p (\<lambda>q. q\<lparr>playername := tocapitals name\<rparr>) v"
  show ?thesis
  proof (cases "Load p ?v1")
    case None
    with assms g show ?thesis
      by (auto simp add: ProcessPlayerInput_def ProcessPlayerName_def Let_def pl_upd pl_out
            length_upd length_out split: if_splits)
  next
    case (Some r)
    obtain e v2 where l: "Load p ?v1 = Some (e, v2)"
      using Some by (cases r) auto
    from Load_result [OF l] assms(1,2)
    have r: "length (playerlist v2) = length (playerlist v)" "connstate (pl v2 p) = eAwaitingName"
      by (simp_all add: length_upd pl_upd)
    from assms g l r show ?thesis
      by (cases e)
         (auto simp add: ProcessPlayerInput_def ProcessPlayerName_def Let_def pl_upd pl_out
            length_upd length_out split: if_splits)
  qed
qed

text \<open>One failed guess in \<open>eAwaitingPassword\<close>.\<close>

lemma password_failure_step:
  assumes "q < length (playerlist u)" and "connstate (pl u q) = eAwaitingPassword"
    and "wrong_password l (pl u q)"
  shows "\<exists>u'. ProcessPlayerInput n q l u = Some u' \<and>
                  length (playerlist u') = length (playerlist u) \<and>
                  badPasswordCount (pl u' q) = badPasswordCount (pl u q) + 1 \<and>
                  connstate (pl u' q) =
                    (if MAX_PASSWORD_ATTEMPTS \<le> badPasswordCount (pl u q) + 1
                     then eAwaitingName else eAwaitingPassword) \<and>
                  flags (pl u' q) =
                    (if MAX_PASSWORD_ATTEMPTS \<le> badPasswordCount (pl u q) + 1
                     then [] else flags (pl u q)) \<and>
                  room (pl u' q) =
                    (if MAX_PASSWORD_ATTEMPTS \<le> badPasswordCount (pl u q) + 1
                     then INITIAL_ROOM else room (pl u q)) \<and>
                  prompt (pl u' q) =
                    (if MAX_PASSWORD_ATTEMPTS \<le> badPasswordCount (pl u q) + 1
                     then ''Enter your name, or '' @ [CHR 0x27] @ ''new'' @ [CHR 0x27]
                          @ '' to create a new character ...  ''
                     else prompt (pl u q)) \<and>
                  playername (pl u' q) = playername (pl u q) \<and>
                  password (pl u' q) = password (pl u q) \<and>
                  closing (pl u' q) = closing (pl u q) \<and>
                  sock (pl u' q) = sock (pl u q) \<and>
                  (\<forall>i. i \<noteq> q \<longrightarrow> pl u' i = pl u i)"
proof -
  from assms(3) obtain e where
    t: "ProcessPlayerPassword_try (DoCommand n) q (istringstream l) u = Some (Some e, u)"
    using ProcessPlayerPassword_try_wrong by blast
  note r = password_error_input [OF t assms(2) assms(1)]
  show ?thesis
    unfolding r using assms(1,2)
    by (simp add: pl_upd length_upd Init_def)
qed

text \<open>
  Claim C2, as the code has it. Session \<open>p\<close> is in \<open>eAwaitingName\<close> and the line \<open>l0\<close> takes it
  to \<open>eAwaitingPassword\<close>; three lines follow that each fail as a guess.

  \<^item> On entering the state the failure counter is zero (\<open>ProcessPlayerName\<close> assigns it).
  \<^item> The first two failures leave the session in \<open>eAwaitingPassword\<close> with the counter at
    one and two, and with its flags, room and prompt as loaded.
  \<^item> The third failure sets the counter to three and runs \<open>Init\<close>: the session is in
    \<open>eAwaitingName\<close>, its flags are cleared, its room is the initial room, and its prompt is
    the name prompt again. The player name and the loaded password are kept as they were.
  \<^item> The connection is not closed (\<open>closing\<close> and the socket are unchanged), and no other
    session changes.
  \<^item> In general, for a session \<open>q\<close> of any world \<open>u\<close> in \<open>eAwaitingPassword\<close>, a failed guess
    adds one to the counter; the session is reset as above when the new counter has reached
    \<open>MAX_PASSWORD_ATTEMPTS\<close>, and stays in \<open>eAwaitingPassword\<close> otherwise.
\<close>

theorem three_failed_passwords:
  assumes "p < length (playerlist v)" and "connstate (pl v p) = eAwaitingName"
    and "ProcessPlayerInput n p l0 v = Some w" and "connstate (pl w p) = eAwaitingPassword"
    and "wrong_password l1 (pl w p)" and "wrong_password l2 (pl w p)"
    and "wrong_password l3 (pl w p)"
  shows "badPasswordCount (pl w p) = 0 \<and>
         (\<exists>w1 w2 w3.
           ProcessPlayerInput n p l1 w = Some w1 \<and>
           connstate (pl w1 p) = eAwaitingPassword \<and> badPasswordCount (pl w1 p) = 1 \<and>
           flags (pl w1 p) = flags (pl w p) \<and> room (pl w1 p) = room (pl w p) \<and>
           prompt (pl w1 p) = prompt (pl w p) \<and>
           ProcessPlayerInput n p l2 w1 = Some w2 \<and>
           connstate (pl w2 p) = eAwaitingPassword \<and> badPasswordCount (pl w2 p) = 2 \<and>
           flags (pl w2 p) = flags (pl w p) \<and> room (pl w2 p) = room (pl w p) \<and>
           prompt (pl w2 p) = prompt (pl w p) \<and>
           ProcessPlayerInput n p l3 w2 = Some w3 \<and>
           connstate (pl w3 p) = eAwaitingName \<and> badPasswordCount (pl w3 p) = 3 \<and>
           flags (pl w3 p) = [] \<and> room (pl w3 p) = INITIAL_ROOM \<and>
           prompt (pl w3 p) = ''Enter your name, or '' @ [CHR 0x27] @ ''new'' @ [CHR 0x27]
                              @ '' to create a new character ...  '' \<and>
           playername (pl w3 p) = playername (pl w p) \<and>
           password (pl w3 p) = password (pl w p) \<and>
           closing (pl w3 p) = closing (pl w p) \<and>
           sock (pl w3 p) = sock (pl w p) \<and>
           (\<forall>i. i \<noteq> p \<longrightarrow> pl w3 i = pl w i)) \<and>
         (\<forall>u q l. q < length (playerlist u) \<and> connstate (pl u q) = eAwaitingPassword \<and>
                  wrong_password l (pl u q) \<longrightarrow>
            (\<exists>u'. ProcessPlayerInput n q l u = Some u' \<and>
                  badPasswordCount (pl u' q) = badPasswordCount (pl u q) + 1 \<and>
                  connstate (pl u' q) =
                    (if MAX_PASSWORD_ATTEMPTS \<le> badPasswordCount (pl u q) + 1
                     then eAwaitingName else eAwaitingPassword) \<and>
                  flags (pl u' q) =
                    (if MAX_PASSWORD_ATTEMPTS \<le> badPasswordCount (pl u q) + 1
                     then [] else flags (pl u q)) \<and>
                  room (pl u' q) =
                    (if MAX_PASSWORD_ATTEMPTS \<le> badPasswordCount (pl u q) + 1
                     then INITIAL_ROOM else room (pl u q)) \<and>
                  prompt (pl u' q) =
                    (if MAX_PASSWORD_ATTEMPTS \<le> badPasswordCount (pl u q) + 1
                     then ''Enter your name, or '' @ [CHR 0x27] @ ''new'' @ [CHR 0x27]
                          @ '' to create a new character ...  ''
                     else prompt (pl u q)) \<and>
                  playername (pl u' q) = playername (pl u q) \<and>
                  password (pl u' q) = password (pl u q) \<and>
                  closing (pl u' q) = closing (pl u q) \<and>
                  sock (pl u' q) = sock (pl u q) \<and>
                  (\<forall>i. i \<noteq> q \<longrightarrow> pl u' i = pl u i)))"
proof -
  from name_entry_resets_counter [OF assms(1-4)]
  have c0: "badPasswordCount (pl w p) = 0" and l0: "p < length (playerlist w)"
    using assms(1) by simp_all
  from password_failure_step [OF l0 assms(4) assms(5), of n] c0
  obtain w1 where 1: "ProcessPlayerInput n p l1 w = Some w1"
    and l1: "length (playerlist w1) = length (playerlist w)"
    and o1: "\<forall>i. i \<noteq> p \<longrightarrow> pl w1 i = pl w i"
    and c1: "badPasswordCount (pl w1 p) = 1" "connstate (pl w1 p) = eAwaitingPassword"
    and f1: "flags (pl w1 p) = flags (pl w p)" "room (pl w1 p) = room (pl w p)"
      "prompt (pl w1 p) = prompt (pl w p)"
    and k1: "playername (pl w1 p) = playername (pl w p)" "password (pl w1 p) = password (pl w p)"
      "closing (pl w1 p) = closing (pl w p)" "sock (pl w1 p) = sock (pl w p)"
    by (auto simp add: MAX_PASSWORD_ATTEMPTS_def)
  have p1: "p < length (playerlist w1)" "wrong_password l2 (pl w1 p)"
    using l0 assms(6) l1 k1(2) by (simp_all add: wrong_password_def)
  from password_failure_step [OF p1(1) c1(2) p1(2), of n] c1(1)
  obtain w2 where 2: "ProcessPlayerInput n p l2 w1 = Some w2"
    and l2: "length (playerlist w2) = length (playerlist w1)"
    and o2: "\<forall>i. i \<noteq> p \<longrightarrow> pl w2 i = pl w1 i"
    and c2: "badPasswordCount (pl w2 p) = 2" "connstate (pl w2 p) = eAwaitingPassword"
    and f2: "flags (pl w2 p) = flags (pl w1 p)" "room (pl w2 p) = room (pl w1 p)"
      "prompt (pl w2 p) = prompt (pl w1 p)"
    and k2: "playername (pl w2 p) = playername (pl w1 p)" "password (pl w2 p) = password (pl w1 p)"
      "closing (pl w2 p) = closing (pl w1 p)" "sock (pl w2 p) = sock (pl w1 p)"
    by (auto simp add: MAX_PASSWORD_ATTEMPTS_def)
  have p2: "p < length (playerlist w2)" "wrong_password l3 (pl w2 p)"
    using l0 assms(7) l1 l2 k1(2) k2(2) by (simp_all add: wrong_password_def)
  from password_failure_step [OF p2(1) c2(2) p2(2), of n] c2(1)
  obtain w3 where 3: "ProcessPlayerInput n p l3 w2 = Some w3"
    and o3: "\<forall>i. i \<noteq> p \<longrightarrow> pl w3 i = pl w2 i"
    and c3: "badPasswordCount (pl w3 p) = 3" "connstate (pl w3 p) = eAwaitingName"
      "flags (pl w3 p) = []" "room (pl w3 p) = INITIAL_ROOM"
      "prompt (pl w3 p) = ''Enter your name, or '' @ [CHR 0x27] @ ''new'' @ [CHR 0x27]
                              @ '' to create a new character ...  ''"
    and k3: "playername (pl w3 p) = playername (pl w2 p)" "password (pl w3 p) = password (pl w2 p)"
      "closing (pl w3 p) = closing (pl w2 p)" "sock (pl w3 p) = sock (pl w2 p)"
    by (auto simp add: MAX_PASSWORD_ATTEMPTS_def)
  have three: "\<exists>w1 w2 w3.
           ProcessPlayerInput n p l1 w = Some w1 \<and>
           connstate (pl w1 p) = eAwaitingPassword \<and> badPasswordCount (pl w1 p) = 1 \<and>
           flags (pl w1 p) = flags (pl w p) \<and> room (pl w1 p) = room (pl w p) \<and>
           prompt (pl w1 p) = prompt (pl w p) \<and>
           ProcessPlayerInput n p l2 w1 = Some w2 \<and>
           connstate (pl w2 p) = eAwaitingPassword \<and> badPasswordCount (pl w2 p) = 2 \<and>
           flags (pl w2 p) = flags (pl w p) \<and> room (pl w2 p) = room (pl w p) \<and>
           prompt (pl w2 p) = prompt (pl w p) \<and>
           ProcessPlayerInput n p l3 w2 = Some w3 \<and>
           connstate (pl w3 p) = eAwaitingName \<and> badPasswordCount (pl w3 p) = 3 \<and>
           flags (pl w3 p) = [] \<and> room (pl w3 p) = INITIAL_ROOM \<and>
           prompt (pl w3 p) = ''Enter your name, or '' @ [CHR 0x27] @ ''new'' @ [CHR 0x27]
                              @ '' to create a new character ...  '' \<and>
           playername (pl w3 p) = playername (pl w p) \<and>
           password (pl w3 p) = password (pl w p) \<and>
           closing (pl w3 p) = closing (pl w p) \<and>
           sock (pl w3 p) = sock (pl w p) \<and>
           (\<forall>i. i \<noteq> p \<longrightarrow> pl w3 i = pl w i)"
    using 1 2 3 c1 c2 c3 f1 f2 k1 k2 k3 o1 o2 o3
    by (intro exI [of _ w1] exI [of _ w2] exI [of _ w3]) simp
  have gen: "\<exists>u'. ProcessPlayerInput n q l u = Some u' \<and>
                  badPasswordCount (pl u' q) = badPasswordCount (pl u q) + 1 \<and>
                  connstate (pl u' q) =
                    (if MAX_PASSWORD_ATTEMPTS \<le> badPasswordCount (pl u q) + 1
                     then eAwaitingName else eAwaitingPassword) \<and>
                  flags (pl u' q) =
                    (if MAX_PASSWORD_ATTEMPTS \<le> badPasswordCount (pl u q) + 1
                     then [] else flags (pl u q)) \<and>
                  room (pl u' q) =
                    (if MAX_PASSWORD_ATTEMPTS \<le> badPasswordCount (pl u q) + 1
                     then INITIAL_ROOM else room (pl u q)) \<and>
                  prompt (pl u' q) =
                    (if MAX_PASSWORD_ATTEMPTS \<le> badPasswordCount (pl u q) + 1
                     then ''Enter your name, or '' @ [CHR 0x27] @ ''new'' @ [CHR 0x27]
                          @ '' to create a new character ...  ''
                     else prompt (pl u q)) \<and>
                  playername (pl u' q) = playername (pl u q) \<and>
                  password (pl u' q) = password (pl u q) \<and>
                  closing (pl u' q) = closing (pl u q) \<and>
                  sock (pl u' q) = sock (pl u q) \<and>
                  (\<forall>i. i \<noteq> q \<longrightarrow> pl u' i = pl u i)"
    if "q < length (playerlist u) \<and> connstate (pl u q) = eAwaitingPassword \<and>
        wrong_password l (pl u q)" for u q l
  proof -
    from that have h: "q < length (playerlist u)" "connstate (pl u q) = eAwaitingPassword"
      "wrong_password l (pl u q)"
      by simp_all
    from password_failure_step [OF h, of n] obtain u' where
      "ProcessPlayerInput n q l u = Some u' \<and>
                  length (playerlist u') = length (playerlist u) \<and>
                  badPasswordCount (pl u' q) = badPasswordCount (pl u q) + 1 \<and>
                  connstate (pl u' q) =
                    (if MAX_PASSWORD_ATTEMPTS \<le> badPasswordCount (pl u q) + 1
                     then eAwaitingName else eAwaitingPassword) \<and>
                  flags (pl u' q) =
                    (if MAX_PASSWORD_ATTEMPTS \<le> badPasswordCount (pl u q) + 1
                     then [] else flags (pl u q)) \<and>
                  room (pl u' q) =
                    (if MAX_PASSWORD_ATTEMPTS \<le> badPasswordCount (pl u q) + 1
                     then INITIAL_ROOM else room (pl u q)) \<and>
                  prompt (pl u' q) =
                    (if MAX_PASSWORD_ATTEMPTS \<le> badPasswordCount (pl u q) + 1
                     then ''Enter your name, or '' @ [CHR 0x27] @ ''new'' @ [CHR 0x27]
                          @ '' to create a new character ...  ''
                     else prompt (pl u q)) \<and>
                  playername (pl u' q) = playername (pl u q) \<and>
                  password (pl u' q) = password (pl u q) \<and>
                  closing (pl u' q) = closing (pl u q) \<and>
                  sock (pl u' q) = sock (pl u q) \<and>
                  (\<forall>i. i \<noteq> q \<longrightarrow> pl u' i = pl u i)" ..
    then show ?thesis
      by (intro exI [of _ u']) (elim conjE, intro conjI)
  qed
  show ?thesis
    apply (rule conjI [OF c0])
    apply (rule conjI [OF three])
    apply (intro allI impI)
    apply (erule gen)
    done
qed

text \<open>The theorem at work: the name \<open>bob\<close> loads the player file of Bob (password \<open>secret\<close>,
  room 1234, one flag), and three guesses fail.\<close>

theorem three_failed_passwords_witness:
  "map_option (\<lambda>w'. (connstate (pl w' 0), badPasswordCount (pl w' 0), flags (pl w' 0),
                     room (pl w' 0), prompt (pl w' 0)))
     (process_lines 0 0 [''bob'', ''guess'', [], ''Secret''] login_world)
   = Some (eAwaitingName, 3, [], 1000,
           ''Enter your name, or '' @ [CHR 0x27] @ ''new'' @ [CHR 0x27]
           @ '' to create a new character ...  '')"
proof -
  have "case ProcessPlayerInput 0 0 ''bob'' login_world of None \<Rightarrow> False
        | Some w \<Rightarrow> connstate (pl w 0) = eAwaitingPassword \<and> wrong_password ''guess'' (pl w 0)
            \<and> wrong_password [] (pl w 0) \<and> wrong_password ''Secret'' (pl w 0)
            \<and> flags (pl w 0) = [''can_goto''] \<and> room (pl w 0) = 1234"
    by code_simp
  then obtain w where w: "ProcessPlayerInput 0 0 ''bob'' login_world = Some w"
    and h: "connstate (pl w 0) = eAwaitingPassword" "wrong_password ''guess'' (pl w 0)"
      "wrong_password [] (pl w 0)" "wrong_password ''Secret'' (pl w 0)"
    by (auto split: option.splits)
  have g: "0 < length (playerlist login_world)" "connstate (pl login_world 0) = eAwaitingName"
    by code_simp+
  from three_failed_passwords [OF g w h, THEN conjunct2, THEN conjunct1] obtain w1 w2 w3 where
    "ProcessPlayerInput 0 0 ''guess'' w = Some w1"
    "ProcessPlayerInput 0 0 [] w1 = Some w2"
    "ProcessPlayerInput 0 0 ''Secret'' w2 = Some w3"
    "connstate (pl w3 0) = eAwaitingName" "badPasswordCount (pl w3 0) = 3"
    "flags (pl w3 0) = []" "room (pl w3 0) = INITIAL_ROOM"
    "prompt (pl w3 0) = ''Enter your name, or '' @ [CHR 0x27] @ ''new'' @ [CHR 0x27]
                              @ '' to create a new character ...  ''"
    by blast
  with w show ?thesis
    by (simp add: INITIAL_ROOM_def)
qed

text \<open>After the reset the session still carries the player name and the password that were
  loaded: \<open>Init\<close> does not clear them.\<close>

theorem reset_keeps_name_and_password_counterexample:
  "map_option (\<lambda>w'. (connstate (pl w' 0), playername (pl w' 0), password (pl w' 0)))
     (process_lines 0 0 [''guess'', [], ''Secret''] password_world)
   = Some (eAwaitingName, ''Bob'', ''secret'')"
  by code_simp

section \<open>Confirming a new password\<close>

text \<open>
  Claim C1 at these two states. The late uniqueness check of \<open>ProcessConfirmPassword\<close> looks
  the password up, not the player name. So the repeated password \<open>secret\<close> takes session 0
  into the game as a second Bob (and no player file is written at this point), and the
  repeated password \<open>bob\<close> sends the session of Carl back to \<open>eAwaitingNewName\<close> although
  no player Carl is connected or on disk.
\<close>

theorem ProcessConfirmPassword_checks_the_password:
  "map_option (\<lambda>w'. (connstate (pl w' 0), playername (pl w' 0), IsPlaying (pl w' 0),
                       playername (pl w' 1), IsPlaying (pl w' 1),
                       playerfiles w' (player_file ''Bob'')))
     (ProcessPlayerInput 2 0 ''secret'' late_collision_world)
   = Some (ePlaying, ''Bob'', True, ''Bob'', True, None) \<and>
   FindPlayer ''Carl'' password_names_player_world = None \<and>
   playerfiles password_names_player_world (player_file ''Carl'') = None \<and>
   map_option (\<lambda>w'. (connstate (pl w' 0), outbuf (pl w' 0)))
     (ProcessPlayerInput 2 0 ''bob'' password_names_player_world)
   = Some (eAwaitingNewName,
           ''That player already exists, please choose another name.\<newline>Please choose a name for your new character ... '')"
  by code_simp

section \<open>Saving and loading a player\<close>

text \<open>
  Claim C6 at this state. \<open>Save\<close> writes an empty third line for the empty flag set. The
  loop of \<open>LoadSet\<close> tests \<open>eof\<close> before the first extraction, which then fails and
  leaves the flag variable empty, and inserts it: the loaded flag set holds the empty
  string. Password and room are read back as they were saved.
\<close>

theorem Load_after_Save_adds_empty_flag:
  "flags (pl saved_world 0) = [] \<and>
   playerfiles (Save 0 saved_world) ''./players/Ann.player'' = Some ''secret\<newline>1000\<newline>\<newline>'' \<and>
   map_option (\<lambda>r. (fst r, password (pl (snd r) 0), room (pl (snd r) 0), flags (pl (snd r) 0)))
     (Load 0 (Save 0 saved_world))
   = Some (None, ''secret'', 1000, [[]])"
  by code_simp

section \<open>The dispatch boundary\<close>

text \<open>Every handler returns, normally or with an error, when \<open>look\<close> is not a direction:
  two levels of \<open>ProcessCommand\<close> are then enough (a command that moves a player, and the
  \<open>look\<close> it ends with). The loop of \<open>LoadSet\<close> ends on every line of a player file.\<close>

lemma get_string_keeps_fail:
  "failbit is \<longrightarrow> eofbit is \<Longrightarrow>
     failbit (snd (get_string flag is)) \<longrightarrow> eofbit (snd (get_string flag is))"
  by (auto simp add: get_string_def sentry_def good_def Let_def split: if_splits)

lemma LoadSet_loop_returns:
  "failbit is \<longrightarrow> eofbit is \<Longrightarrow> \<exists>r. LoadSet_loop is flag st = Some r"
proof (induction "is" flag st rule: LoadSet_loop.induct)
  case (1 "is" flag st)
  show ?case
  proof (cases "eofbit is")
    case True
    then show ?thesis by (subst LoadSet_loop.simps) simp
  next
    case False
    with "1.prems" have nf: "\<not> failbit is" by simp
    obtain flag1 is1 where g: "get_string flag is = (flag1, is1)"
      by (cases "get_string flag is") auto
    from get_string_keeps_fail [OF "1.prems", of flag] g have "failbit is1 \<longrightarrow> eofbit is1"
      by simp
    with "1.IH" [OF False nf g [symmetric]]
    have "\<exists>r. LoadSet_loop is1 flag1 (ci_insert flag1 st) = Some r" .
    with False nf g show ?thesis
      by (subst LoadSet_loop.simps) simp
  qed
qed

lemma LoadSet_returns: "\<exists>r. LoadSet f = Some r"
proof -
  obtain sLine f1 where g: "getline [] f = (sLine, f1)"
    by (cases "getline [] f") auto
  have "\<exists>r. LoadSet_loop (istringstream sLine) [] [] = Some r"
    by (rule LoadSet_loop_returns) (simp add: istringstream_def)
  then obtain r where "LoadSet_loop (istringstream sLine) [] [] = Some r" ..
  with g show ?thesis
    by (simp add: LoadSet_def)
qed

lemma Load_returns: "\<exists>e w'. Load p w = Some (e, w')"
proof (cases "playerfiles w (player_file (playername (pl w p)))")
  case None
  then show ?thesis by (simp add: Load_def)
next
  case (Some content)
  obtain pw f1 where a: "get_string (password (pl w p)) (istringstream content) = (pw, f1)"
    by (cases "get_string (password (pl w p)) (istringstream content)") auto
  obtain vnum f2 where b: "get_int (room (pl w p)) f1 = (vnum, f2)"
    by (cases "get_int (room (pl w p)) f1") auto
  obtain st f4 where c: "LoadSet (ignore_line f2) = Some (st, f4)"
    using LoadSet_returns [of "ignore_line f2"] by auto
  from Some a b c show ?thesis
    by (simp add: Load_def)
qed

lemma ProcessPlayerName_returns: "\<exists>e w'. ProcessPlayerName p sArgs w = Some (e, w')"
proof -
  obtain name is1 where g: "get_string [] sArgs = (name, is1)"
    by (cases "get_string [] sArgs") auto
  obtain e w2 where l: "Load p (upd p (\<lambda>q. q\<lparr>playername := tocapitals name\<rparr>) w) = Some (e, w2)"
    using Load_returns [of p "upd p (\<lambda>q. q\<lparr>playername := tocapitals name\<rparr>) w"] by auto
  from g l show ?thesis
    by (cases e) (simp_all add: ProcessPlayerName_def Let_def)
qed

lemma ProcessNewPlayerName_returns: "\<exists>e w'. ProcessNewPlayerName p sArgs w = Some (e, w')"
  by (simp add: ProcessNewPlayerName_def Let_def split: prod.splits)

lemma ProcessNewPassword_returns: "\<exists>e w'. ProcessNewPassword p sArgs w = Some (e, w')"
  by (simp add: ProcessNewPassword_def Let_def split: prod.splits)

lemma SendToAll_fields:
  "roommap (SendToAll m e r w) = roommap w" "messagemap (SendToAll m e r w) = messagemap w"
  "directionset (SendToAll m e r w) = directionset w" "badnameset (SendToAll m e r w) = badnameset w"
  "bStopNow (SendToAll m e r w) = bStopNow w" "playerfiles (SendToAll m e r w) = playerfiles w"
  "unwritable (SendToAll m e r w) = unwritable w" "console (SendToAll m e r w) = console w"
  by (simp_all add: SendToAll_def)

lemma get_string_look: "get_string [] (istringstream ''look'') = (''look'', \<lparr>rest = [], eofbit = True, failbit = False\<rparr>)"
  by code_simp

lemma look_returns:
  "\<not> ci_find ''look'' (directionset w) \<Longrightarrow> \<exists>e w'. DoCommand (Suc n) q ''look'' w = Some (e, w')"
  by (simp add: DoCommand_def commandmap_def get_string_look)

lemma PlayerToRoom_returns:
  assumes "\<not> ci_find ''look'' (directionset w)"
  shows "\<exists>e w'. PlayerToRoom (DoCommand (Suc n)) p vnum m1 m2 m3 w = Some (e, w')"
proof (cases "FindRoom vnum w")
  case (Inl e)
  then show ?thesis by (simp add: PlayerToRoom_def)
next
  case (Inr r)
  let ?w3 = "out p m1 (upd p (\<lambda>q. q\<lparr>room := vnum\<rparr>) (SendToAll m2 (Some p) (room (pl w p)) w))"
  have "\<exists>e w'. DoCommand (Suc n) p ''look'' ?w3 = Some (e, w')"
    using assms by (intro look_returns) (simp add: out_fields upd_fields SendToAll_fields)
  then obtain e w4 where "DoCommand (Suc n) p ''look'' ?w3 = Some (e, w4)"
    by auto
  with Inr show ?thesis
    by (cases e) (simp_all add: PlayerToRoom_def Let_def)
qed

lemma DoDirection_returns:
  "\<not> ci_find ''look'' (directionset w) \<Longrightarrow>
     \<exists>e w'. DoDirection (DoCommand (Suc n)) p d w = Some (e, w')"
  by (simp add: DoDirection_def PlayerToRoom_returns split: sum.splits option.splits)

lemma DoGoTo_returns:
  "\<not> ci_find ''look'' (directionset w) \<Longrightarrow>
     \<exists>e w'. DoGoTo (DoCommand (Suc n)) p sArgs w = Some (e, w')"
  by (simp add: DoGoTo_def Let_def PlayerToRoom_returns split: sum.splits option.splits prod.splits)

lemma DoTransfer_returns:
  assumes "\<not> ci_find ''look'' (directionset w)"
  shows "\<exists>e w'. DoTransfer (DoCommand (Suc n)) p sArgs w = Some (e, w')"
proof -
  have "\<exists>e w'. PlayerToRoom (DoCommand (Suc n)) t vnum m1 m2 m3 (out p m w) = Some (e, w')" for t vnum m1 m2 m3 m
    using assms by (intro PlayerToRoom_returns) (simp add: out_fields)
  then show ?thesis
    by (simp add: DoTransfer_def Let_def split: sum.splits option.splits prod.splits)
qed

lemma commandmap_returns:
  "\<not> ci_find ''look'' (directionset w) \<Longrightarrow> commandmap (DoCommand (Suc n)) c = Some h \<Longrightarrow>
     \<exists>e w'. h p sArgs w = Some (e, w')"
  by (auto simp add: commandmap_def DoGoTo_returns DoTransfer_returns split: if_splits)

lemma ProcessCommand_returns:
  assumes "\<not> ci_find ''look'' (directionset w)"
  shows "\<exists>e w'. ProcessCommand (Suc (Suc n)) p sArgs w = Some (e, w')"
proof -
  obtain c is1 where g: "get_string [] sArgs = (c, is1)"
    by (cases "get_string [] sArgs") auto
  show ?thesis
  proof (cases "ci_find c (directionset w)")
    case True
    with g DoDirection_returns [OF assms, of n p c] show ?thesis
      by (simp del: ProcessCommand.simps add: ProcessCommand.simps [of "Suc n"])
  next
    case False
    show ?thesis
    proof (cases "commandmap (DoCommand (Suc n)) c")
      case None
      with g False show ?thesis
        by (simp del: ProcessCommand.simps add: ProcessCommand.simps [of "Suc n"])
    next
      case (Some h)
      with g False commandmap_returns [OF assms Some, of p "get_ws is1"] show ?thesis
        by (simp del: ProcessCommand.simps add: ProcessCommand.simps [of "Suc n"])
    qed
  qed
qed

lemma PlayerEnteredGame_returns:
  assumes "\<not> ci_find ''look'' (directionset w)"
  shows "\<exists>e w'. PlayerEnteredGame (DoCommand (Suc n)) p m w = Some (e, w')"
proof -
  let ?w1 = "upd p (\<lambda>q. q\<lparr>connstate := ePlaying, prompt := PROMPT\<rparr>) w"
  let ?w2 = "out p (''Welcome, '' @ playername (pl ?w1 p) @ ''\<newline>\<newline>'') ?w1"
  let ?w3 = "out p m ?w2"
  let ?w4 = "out p (message_of ''motd'' ?w3) ?w3"
  have "\<exists>e w'. DoCommand (Suc n) p ''look'' ?w4 = Some (e, w')"
    using assms by (intro look_returns) (simp add: out_fields upd_fields)
  then obtain e w5 where "DoCommand (Suc n) p ''look'' ?w4 = Some (e, w5)"
    by auto
  then show ?thesis
    by (cases e) (simp_all add: PlayerEnteredGame_def Let_def)
qed

lemma ProcessConfirmPassword_returns:
  "\<not> ci_find ''look'' (directionset w) \<Longrightarrow>
     \<exists>e w'. ProcessConfirmPassword (DoCommand (Suc n)) p sArgs w = Some (e, w')"
  by (simp add: ProcessConfirmPassword_def Let_def PlayerEnteredGame_returns split: prod.splits)

lemma ProcessPlayerPassword_returns:
  assumes "\<not> ci_find ''look'' (directionset w)"
  shows "\<exists>e w'. ProcessPlayerPassword (DoCommand (Suc n)) p sArgs w = Some (e, w')"
proof -
  have "\<exists>e w'. ProcessPlayerPassword_try (DoCommand (Suc n)) p sArgs w = Some (e, w')"
    using assms
    by (simp add: ProcessPlayerPassword_try_def Let_def PlayerEnteredGame_returns split: prod.splits)
  then obtain e w1 where "ProcessPlayerPassword_try (DoCommand (Suc n)) p sArgs w = Some (e, w1)"
    by auto
  then show ?thesis
    by (cases e) (simp_all add: ProcessPlayerPassword_def Let_def)
qed

lemma statemap_returns:
  "\<not> ci_find ''look'' (directionset w) \<Longrightarrow> \<exists>e w'. statemap (Suc (Suc n)) st p sArgs w = Some (e, w')"
  by (cases st)
     (simp_all add: ProcessPlayerName_returns ProcessNewPlayerName_returns ProcessNewPassword_returns
        ProcessConfirmPassword_returns ProcessPlayerPassword_returns ProcessCommand_returns
        del: ProcessCommand.simps)

lemma prompt_out: "prompt (pl (out p t w) i) = prompt (pl w i)"
  by (simp add: pl_out)

lemma ProcessPlayerInput_result:
  "statemap n (connstate (pl w p)) p (istringstream line) w = Some (e, w1) \<Longrightarrow>
     ProcessPlayerInput n p line w = Some (out p (error_line e @ prompt (pl w1 p)) w1)"
  by (cases e) (simp_all add: ProcessPlayerInput_def error_line_def Let_def prompt_out out_out out_def [of p "[]"]
      del: statemap.simps)

section \<open>Reading from a socket\<close>

lemma pl_SendToAll:
  "i < length (playerlist w) \<Longrightarrow>
     pl (SendToAll m e r w) i = sendToPlayer m e r i (pl w i)"
  by (simp add: SendToAll_def pl_def)

lemma length_SendToAll: "length (playerlist (SendToAll m e r w)) = length (playerlist w)"
  by (simp add: SendToAll_def)

lemma log_line_fields:
  "playerlist (log_line l w) = playerlist w" "roommap (log_line l w) = roommap w"
  "messagemap (log_line l w) = messagemap w" "directionset (log_line l w) = directionset w"
  "badnameset (log_line l w) = badnameset w" "bStopNow (log_line l w) = bStopNow w"
  "playerfiles (log_line l w) = playerfiles w" "unwritable (log_line l w) = unwritable w"
  by (simp_all add: log_line_def)

lemma pl_log_line: "pl (log_line l w) i = pl w i"
  by (simp add: pl_def log_line_def)

lemma get_string_quit:
  "get_string [] (istringstream ''quit'') = (''quit'', \<lparr>rest = [], eofbit = True, failbit = False\<rparr>)"
  by code_simp

lemma NoMore_at_end: "NoMore (get_ws \<lparr>rest = [], eofbit = True, failbit = False\<rparr>) = None"
  by code_simp

lemma ProcessCommand_quit:
  "\<not> ci_find ''quit'' (directionset w) \<Longrightarrow>
     ProcessCommand (Suc n) p (istringstream ''quit'') w
       = Some (DoQuit p (get_ws \<lparr>rest = [], eofbit = True, failbit = False\<rparr>) w)"
  by (simp add: get_string_quit commandmap_def)

lemma DoQuit_playing:
  "connstate (pl w p) = ePlaying \<Longrightarrow>
     DoQuit p (get_ws \<lparr>rest = [], eofbit = True, failbit = False\<rparr>) w
       = (None, upd p ClosePlayer
            (SendToAll (''Player '' @ playername (pl w p) @ '' has left the game.\<newline>'') (Some p) 0
               (log_line (''Player '' @ playername (pl w p) @ '' has left the game.'')
                  (out p ''See you next time!\<newline>'' w))))"
  by (simp add: DoQuit_def NoMore_at_end Let_def)

lemma ProcessRead_closing: "closing (pl w p) \<Longrightarrow> ProcessRead n p r w = Some w"
  by (simp add: ProcessRead_def)

lemma ProcessRead_quit_playing:
  assumes p: "p < length (playerlist w)" and c: "\<not> closing (pl w p)"
    and s: "connstate (pl w p) = ePlaying" and d: "\<not> ci_find ''quit'' (directionset w)"
  shows "ProcessRead (Suc n) p (ReadBytes []) w =
     Some (out p (prompt (pl w p))
       (upd p ClosePlayer
          (SendToAll (''Player '' @ playername (pl w p) @ '' has left the game.\<newline>'') (Some p) 0
             (log_line (''Player '' @ playername (pl w p) @ '' has left the game.'')
                (out p ''See you next time!\<newline>''
                   (upd p (\<lambda>q. q\<lparr>sock := NO_SOCKET\<rparr>)
                      (log_line (''Connection '' @ show_int (sock (pl w p)) @ '' closed'') w)))))))"
proof -
  let ?w0 = "upd p (\<lambda>q. q\<lparr>sock := NO_SOCKET\<rparr>)
               (log_line (''Connection '' @ show_int (sock (pl w p)) @ '' closed'') w)"
  have l0: "p < length (playerlist ?w0)"
    using p by (simp add: length_upd log_line_fields)
  have f0: "connstate (pl ?w0 p) = ePlaying" "playername (pl ?w0 p) = playername (pl w p)"
    "prompt (pl ?w0 p) = prompt (pl w p)" "directionset ?w0 = directionset w"
    using p s by (simp_all add: pl_upd log_line_fields pl_log_line upd_fields)
  have q: "ProcessCommand (Suc n) p (istringstream ''quit'') ?w0
      = Some (None, upd p ClosePlayer
            (SendToAll (''Player '' @ playername (pl w p) @ '' has left the game.\<newline>'') (Some p) 0
               (log_line (''Player '' @ playername (pl w p) @ '' has left the game.'')
                  (out p ''See you next time!\<newline>'' ?w0))))"
    using d f0 ProcessCommand_quit [of ?w0 n p] DoQuit_playing [of ?w0 p]
    by (simp del: ProcessCommand.simps)
  have pr: "prompt (pl (upd p ClosePlayer
            (SendToAll (''Player '' @ playername (pl w p) @ '' has left the game.\<newline>'') (Some p) 0
               (log_line (''Player '' @ playername (pl w p) @ '' has left the game.'')
                  (out p ''See you next time!\<newline>'' ?w0)))) p) = prompt (pl w p)"
    using l0 f0(3)
    by (simp add: pl_upd length_SendToAll log_line_fields length_out pl_SendToAll sendToPlayer_def
        pl_log_line pl_out ClosePlayer_def)
  show ?thesis
    using c f0(1) q pr
    by (simp add: ProcessRead_def ProcessPlayerInput_def del: ProcessCommand.simps)
qed

lemma Save_save_record: "Save i w = save_record (pl w i) w"
  by (simp add: Save_def save_record_def record_text_def Let_def)

lemma save_record_playerlist:
  "playerlist (save_record q w) = playerlist w"
  "save_record q (w\<lparr>playerlist := xs\<rparr>) = (save_record q w)\<lparr>playerlist := xs\<rparr>"
  by (simp_all add: save_record_def log_line_def)

lemma save_on_delete_playerlist:
  "playerlist (save_on_delete w q) = playerlist w"
  "save_on_delete (w\<lparr>playerlist := xs\<rparr>) q = (save_on_delete w q)\<lparr>playerlist := xs\<rparr>"
  by (simp_all add: save_on_delete_def save_record_playerlist)

lemma foldl_save_on_delete_playerlist:
  "foldl save_on_delete (w\<lparr>playerlist := xs\<rparr>) qs = (foldl save_on_delete w qs)\<lparr>playerlist := xs\<rparr>"
  by (induction qs arbitrary: w) (simp_all add: save_on_delete_playerlist)

lemma save_record_outbuf: "save_record (q\<lparr>outbuf := b\<rparr>) w = save_record q w"
  by (simp add: save_record_def record_text_def)

lemma tPlayer_dtor_erase:
  assumes "i < length (playerlist w)" and "tPlayer_dtor wr k i w = (w1, calls, closed)"
  shows "w1\<lparr>playerlist := take i (playerlist w1) @ drop (Suc i) (playerlist w1)\<rparr>
         = (save_on_delete w (pl w i))\<lparr>playerlist := take i (playerlist w) @ drop (Suc i) (playerlist w)\<rparr>"
proof -
  obtain q c where pw: "ProcessWrite wr k (pl w i) = (q, c)"
    by (cases "ProcessWrite wr k (pl w i)") auto
  from ProcessWrite_buffer [of wr k "pl w i"] pw
  have q: "q = (pl w i)\<lparr>outbuf := drop (bytes_written c) (outbuf (pl w i))\<rparr>"
    by simp
  let ?w1 = "upd i (\<lambda>q0. q) w"
  have a: "take i (playerlist ?w1) @ drop (Suc i) (playerlist ?w1)
           = take i (playerlist w) @ drop (Suc i) (playerlist w)"
    by (simp add: upd_def)
  have b: "?w1\<lparr>playerlist := xs\<rparr> = w\<lparr>playerlist := xs\<rparr>" for xs
    by (simp add: upd_def)
  have c: "pl ?w1 i = q"
    using assms(1) by (simp add: pl_upd)
  have d: "connstate q = connstate (pl w i)" "save_record q v = save_record (pl w i) v" for v
    unfolding q by (simp_all add: save_record_outbuf)
  from assms(2) pw have w1: "w1 = (if connstate q = ePlaying then Save i ?w1 else ?w1)"
    by (simp add: tPlayer_dtor_def Let_def)
  have e: "playerlist w1 = playerlist ?w1"
    unfolding w1 by (simp add: Save_save_record save_record_playerlist)
  have "w1\<lparr>playerlist := xs\<rparr> = (save_on_delete w (pl w i))\<lparr>playerlist := xs\<rparr>" for xs
  proof (cases "connstate q = ePlaying")
    case True
    then have "w1\<lparr>playerlist := xs\<rparr> = (save_record q ?w1)\<lparr>playerlist := xs\<rparr>"
      unfolding w1 by (simp add: Save_save_record c)
    also have "\<dots> = save_record q (?w1\<lparr>playerlist := xs\<rparr>)"
      by (simp only: save_record_playerlist(2))
    also have "\<dots> = save_record q (w\<lparr>playerlist := xs\<rparr>)"
      by (simp only: b)
    also have "\<dots> = (save_record (pl w i) w)\<lparr>playerlist := xs\<rparr>"
      by (simp only: save_record_playerlist(2) d(2))
    finally show ?thesis
      using True d(1) by (simp add: save_on_delete_def)
  next
    case False
    then show ?thesis
      unfolding w1 using d(1) by (simp add: save_on_delete_def b)
  qed
  then show ?thesis
    unfolding e a .
qed

lemma RemoveInactivePlayers_from_world:
  "fst (RemoveInactivePlayers_from wr k i w)
     = (foldl save_on_delete w (filter inactive (drop i (playerlist w))))
         \<lparr>playerlist := take i (playerlist w) @ filter (\<lambda>q. \<not> inactive q) (drop i (playerlist w))\<rparr>"
proof (induction wr k i w rule: RemoveInactivePlayers_from.induct)
  case (1 wr k i w)
  show ?case
  proof (cases "i < length (playerlist w)")
    case False
    then show ?thesis
      by (subst RemoveInactivePlayers_from.simps) simp
  next
    case True
    then have d: "drop i (playerlist w) = pl w i # drop (Suc i) (playerlist w)"
      by (simp add: pl_def Cons_nth_drop_Suc)
    show ?thesis
    proof (cases "inactive (pl w i)")
      case False
      then have n: "\<not> (\<not> Connected (pl w i) \<or> closing (pl w i))"
        by (simp add: inactive_def)
      from True have t: "take (Suc i) (playerlist w) = take i (playerlist w) @ [pl w i]"
        by (simp add: pl_def take_Suc_conv_app_nth)
      have f: "RemoveInactivePlayers_from wr k i w = RemoveInactivePlayers_from wr k (Suc i) w"
        using True n by (subst RemoveInactivePlayers_from.simps) simp
      show ?thesis
        unfolding f "1.IH"(2) [OF True n] d t
        using False by simp
    next
      case ia: True
      then have n: "\<not> Connected (pl w i) \<or> closing (pl w i)"
        by (simp add: inactive_def)
      obtain w1 calls closed where t: "tPlayer_dtor wr k i w = (w1, calls, closed)"
        by (cases "tPlayer_dtor wr k i w") auto
      let ?wE = "w1\<lparr>playerlist := take i (playerlist w1) @ drop (Suc i) (playerlist w1)\<rparr>"
      note e = tPlayer_dtor_erase [OF True t]
      have ih: "fst (RemoveInactivePlayers_from wr (k + length calls) i ?wE)
        = (foldl save_on_delete ?wE (filter inactive (drop i (playerlist ?wE))))
         \<lparr>playerlist := take i (playerlist ?wE) @ filter (\<lambda>q. \<not> inactive q) (drop i (playerlist ?wE))\<rparr>"
        by (rule "1.IH"(1) [OF True n t [symmetric] refl])
      have pE: "playerlist ?wE = take i (playerlist w) @ drop (Suc i) (playerlist w)"
        unfolding e by simp
      have l: "length (take i (playerlist w)) = i"
        using True by simp
      have f: "RemoveInactivePlayers_from wr k i w
        = (fst (RemoveInactivePlayers_from wr (k + length calls) i ?wE),
           (calls, closed) # snd (RemoveInactivePlayers_from wr (k + length calls) i ?wE))"
        using True n t by (subst RemoveInactivePlayers_from.simps) (simp add: split_beta)
      have g: "drop i (take i (playerlist w) @ drop (Suc i) (playerlist w)) = drop (Suc i) (playerlist w)"
        "take i (take i (playerlist w) @ drop (Suc i) (playerlist w)) = take i (playerlist w)"
        using l by simp_all
      show ?thesis
        unfolding f fst_conv ih pE g
        unfolding e d
        using ia by (simp add: foldl_save_on_delete_playerlist)
    qed
  qed
qed

lemma RemoveInactivePlayers_from_all_active:
  assumes "\<forall>j. i \<le> j \<and> j < length (playerlist w) \<longrightarrow> \<not> inactive (pl w j)"
  shows "RemoveInactivePlayers_from wr k i w = (w, [])"
  using assms
proof (induction "length (playerlist w) - i" arbitrary: i)
  case 0
  then have "\<not> i < length (playerlist w)" by simp
  then show ?case
    by (subst RemoveInactivePlayers_from.simps) simp
next
  case (Suc m)
  from Suc.hyps(2) have a: "i < length (playerlist w)" by simp
  with Suc.prems have b: "\<not> (\<not> Connected (pl w i) \<or> closing (pl w i))"
    by (simp add: inactive_def)
  have "m = length (playerlist w) - Suc i"
    using Suc.hyps(2) by simp
  moreover have "\<forall>j. Suc i \<le> j \<and> j < length (playerlist w) \<longrightarrow> \<not> inactive (pl w j)"
    using Suc.prems by simp
  ultimately have "RemoveInactivePlayers_from wr k (Suc i) w = (w, [])"
    by (rule Suc.hyps(1))
  with a b show ?case
    by (subst RemoveInactivePlayers_from.simps) simp
qed

lemma RemoveInactivePlayers_from_skip:
  assumes "i \<le> p" and "p \<le> length (playerlist w)"
    and "\<forall>j. i \<le> j \<and> j < p \<longrightarrow> \<not> inactive (pl w j)"
  shows "RemoveInactivePlayers_from wr k i w = RemoveInactivePlayers_from wr k p w"
  using assms
proof (induction "p - i" arbitrary: i)
  case 0
  then show ?case by simp
next
  case (Suc m)
  from Suc.hyps(2) Suc.prems(2) have a: "i < length (playerlist w)" "i < p" by simp_all
  with Suc.prems have b: "\<not> (\<not> Connected (pl w i) \<or> closing (pl w i))"
    by (simp add: inactive_def)
  have "m = p - Suc i"
    using Suc.hyps(2) by simp
  moreover have "Suc i \<le> p"
    using a by simp
  moreover note Suc.prems(2)
  moreover have "\<forall>j. Suc i \<le> j \<and> j < p \<longrightarrow> \<not> inactive (pl w j)"
    using Suc.prems(3) by simp
  ultimately have "RemoveInactivePlayers_from wr k (Suc i) w = RemoveInactivePlayers_from wr k p w"
    by (rule Suc.hyps(1))
  with a b show ?case
    by (subst RemoveInactivePlayers_from.simps) simp
qed

lemma upd_same: "upd i (\<lambda>q0. pl w i) w = w"
  by (simp add: upd_def pl_def)

lemma tPlayer_dtor_dead_socket:
  "sock (pl w i) = NO_SOCKET \<Longrightarrow>
     tPlayer_dtor wr k i w = (if connstate (pl w i) = ePlaying then Save i w else w, [], None)"
  by (simp add: tPlayer_dtor_def ProcessWrite_idle upd_same)

lemma RemoveInactivePlayers_again:
  "RemoveInactivePlayers wr2 k2 (fst (RemoveInactivePlayers wr k w))
     = (fst (RemoveInactivePlayers wr k w), [])"
proof -
  let ?w' = "fst (RemoveInactivePlayers wr k w)"
  have p: "playerlist ?w' = filter (\<lambda>q. \<not> inactive q) (playerlist w)"
    by (simp add: RemoveInactivePlayers_def RemoveInactivePlayers_from_world)
  have "\<not> inactive (pl ?w' j)" if "j < length (playerlist ?w')" for j
  proof -
    from that have "pl ?w' j \<in> set (playerlist ?w')"
      by (simp add: pl_def)
    then show ?thesis
      unfolding p by simp
  qed
  then show ?thesis
    unfolding RemoveInactivePlayers_def [of wr2]
    by (intro RemoveInactivePlayers_from_all_active) simp
qed

lemma Save_fields:
  "playerlist (Save i w) = playerlist w"
  "playerfiles (Save i w)
     = (if unwritable w (player_file (playername (pl w i))) then playerfiles w
        else (playerfiles w)(player_file (playername (pl w i)) \<mapsto> record_text (pl w i)))"
  by (simp_all add: Save_save_record save_record_def log_line_def)

lemma RemoveInactivePlayers_one:
  assumes p: "p < length (playerlist v)" and s: "sock (pl v p) = NO_SOCKET"
    and c: "connstate (pl v p) = ePlaying"
    and o: "\<forall>i < length (playerlist v). i \<noteq> p \<longrightarrow> \<not> inactive (pl v i)"
  shows "RemoveInactivePlayers wr k v
           = ((Save p v)\<lparr>playerlist := take p (playerlist v) @ drop (Suc p) (playerlist v)\<rparr>,
              [([], None)])"
proof -
  let ?wE = "(Save p v)\<lparr>playerlist := take p (playerlist v) @ drop (Suc p) (playerlist v)\<rparr>"
  have 1: "RemoveInactivePlayers_from wr k 0 v = RemoveInactivePlayers_from wr k p v"
    using p o by (intro RemoveInactivePlayers_from_skip) simp_all
  have n: "\<not> Connected (pl v p) \<or> closing (pl v p)"
    using s by (simp add: Connected_def)
  have a: "\<not> inactive (pl ?wE j)" if j: "p \<le> j" "j < length (playerlist ?wE)" for j
  proof -
    from j p have l: "Suc j < length (playerlist v)"
      by simp
    from j p have "pl ?wE j = pl v (Suc j)"
      by (simp add: pl_def nth_append)
    with o l j(1) show ?thesis
      by simp
  qed
  have 2: "RemoveInactivePlayers_from wr k p ?wE = (?wE, [])"
    by (rule RemoveInactivePlayers_from_all_active) (use a in blast)
  have 3: "RemoveInactivePlayers_from wr k p v = (?wE, [([], None)])"
    using p n c 2
    by (subst RemoveInactivePlayers_from.simps)
       (simp add: tPlayer_dtor_dead_socket [OF s] Save_fields)
  show ?thesis
    unfolding RemoveInactivePlayers_def 1 3 ..
qed

text \<open>
  Claim C3, as the code has it. For a session that is not closing: a read that would block
  changes nothing; a read that fails otherwise is reported on the console and changes no
  session (the socket stays as it is, no command is run); a read of no bytes marks the
  socket dead and runs the line \<open>quit\<close> through the handler of the session's state.

  For a playing session, where \<open>quit\<close> is not a direction, that run says goodbye to the
  session, marks it closing, and appends the departure message once to every other connected
  playing session and to no other; it writes no player file yet. From then on every read
  attempt for the session changes nothing.

  The player is saved when \<open>RemoveInactivePlayers\<close> deletes the session. The pass keeps the
  sessions that are connected and not closing, and runs the step \<open>save_on_delete\<close> once for
  each session it deletes, in the order of the list; the disconnected session is one of them,
  and its step is \<open>Save\<close> with the data the player had at the read. A second pass changes
  nothing and deletes nothing. When every other session is connected and not closing, the
  first pass deletes exactly the disconnected session, without writing to its socket or
  closing it again, and the player files differ from those before the read by the one record
  of that player (or not at all, when its file cannot be written).
\<close>

theorem ProcessRead_results:
  assumes "p < length (playerlist w)" and "\<not> closing (pl w p)"
  shows "ProcessRead n p (ReadError True) w = Some w \<and>
         ProcessRead n p (ReadError False) w = Some (log_line ''read from player'' w) \<and>
         playerlist (log_line ''read from player'' w) = playerlist w \<and>
         ProcessRead n p (ReadBytes []) w
           = ProcessPlayerInput n p ''quit''
               (upd p (\<lambda>q. q\<lparr>sock := NO_SOCKET\<rparr>)
                  (log_line (''Connection '' @ show_int (sock (pl w p)) @ '' closed'') w)) \<and>
         (connstate (pl w p) = ePlaying \<and> \<not> ci_find ''quit'' (directionset w) \<longrightarrow>
            (\<exists>w'. ProcessRead (Suc n) p (ReadBytes []) w = Some w' \<and>
               length (playerlist w') = length (playerlist w) \<and>
               sock (pl w' p) = NO_SOCKET \<and> closing (pl w' p) \<and>
               outbuf (pl w' p) = outbuf (pl w p) @ ''See you next time!\<newline>'' @ prompt (pl w p) \<and>
               (\<forall>i < length (playerlist w). i \<noteq> p \<longrightarrow>
                  pl w' i = (if IsPlaying (pl w i)
                             then (pl w i)\<lparr>outbuf := outbuf (pl w i) @ ''Player '' @ playername (pl w p)
                                                       @ '' has left the game.\<newline>''\<rparr>
                             else pl w i)) \<and>
               playerfiles w' = playerfiles w \<and>
               (\<forall>m r. ProcessRead m p r w' = Some w') \<and>
               filter inactive (playerlist w')
                 = filter inactive (take p (playerlist w')) @ pl w' p
                     # filter inactive (drop (Suc p) (playerlist w')) \<and>
               (\<forall>v. save_on_delete v (pl w' p) = save_record (pl w p) v) \<and>
               (\<forall>wr k. \<exists>w'' deleted.
                  RemoveInactivePlayers wr k w' = (w'', deleted) \<and>
                  w'' = (foldl save_on_delete w' (filter inactive (playerlist w')))
                          \<lparr>playerlist := filter (\<lambda>q. \<not> inactive q) (playerlist w')\<rparr> \<and>
                  (\<forall>wr2 k2. RemoveInactivePlayers wr2 k2 w'' = (w'', [])) \<and>
                  ((\<forall>i < length (playerlist w). i \<noteq> p \<longrightarrow> \<not> inactive (pl w i)) \<longrightarrow>
                     deleted = [([], None)] \<and>
                     playerlist w'' = take p (playerlist w') @ drop (Suc p) (playerlist w') \<and>
                     playerfiles w''
                       = (if unwritable w (player_file (playername (pl w p))) then playerfiles w
                          else (playerfiles w)(player_file (playername (pl w p))
                                 \<mapsto> record_text (pl w p)))))))"
proof -
  have 1: "ProcessRead n p (ReadError True) w = Some w"
    "ProcessRead n p (ReadError False) w = Some (log_line ''read from player'' w)"
    "playerlist (log_line ''read from player'' w) = playerlist w"
    "ProcessRead n p (ReadBytes []) w
           = ProcessPlayerInput n p ''quit''
               (upd p (\<lambda>q. q\<lparr>sock := NO_SOCKET\<rparr>)
                  (log_line (''Connection '' @ show_int (sock (pl w p)) @ '' closed'') w))"
    using assms(2) by (simp_all add: ProcessRead_def log_line_fields)
  have 2: "\<exists>w'. ProcessRead (Suc n) p (ReadBytes []) w = Some w' \<and>
               length (playerlist w') = length (playerlist w) \<and>
               sock (pl w' p) = NO_SOCKET \<and> closing (pl w' p) \<and>
               outbuf (pl w' p) = outbuf (pl w p) @ ''See you next time!\<newline>'' @ prompt (pl w p) \<and>
               (\<forall>i < length (playerlist w). i \<noteq> p \<longrightarrow>
                  pl w' i = (if IsPlaying (pl w i)
                             then (pl w i)\<lparr>outbuf := outbuf (pl w i) @ ''Player '' @ playername (pl w p)
                                                       @ '' has left the game.\<newline>''\<rparr>
                             else pl w i)) \<and>
               playerfiles w' = playerfiles w \<and>
               (\<forall>m r. ProcessRead m p r w' = Some w') \<and>
               filter inactive (playerlist w')
                 = filter inactive (take p (playerlist w')) @ pl w' p
                     # filter inactive (drop (Suc p) (playerlist w')) \<and>
               (\<forall>v. save_on_delete v (pl w' p) = save_record (pl w p) v) \<and>
               (\<forall>wr k. \<exists>w'' deleted.
                  RemoveInactivePlayers wr k w' = (w'', deleted) \<and>
                  w'' = (foldl save_on_delete w' (filter inactive (playerlist w')))
                          \<lparr>playerlist := filter (\<lambda>q. \<not> inactive q) (playerlist w')\<rparr> \<and>
                  (\<forall>wr2 k2. RemoveInactivePlayers wr2 k2 w'' = (w'', [])) \<and>
                  ((\<forall>i < length (playerlist w). i \<noteq> p \<longrightarrow> \<not> inactive (pl w i)) \<longrightarrow>
                     deleted = [([], None)] \<and>
                     playerlist w'' = take p (playerlist w') @ drop (Suc p) (playerlist w') \<and>
                     playerfiles w''
                       = (if unwritable w (player_file (playername (pl w p))) then playerfiles w
                          else (playerfiles w)(player_file (playername (pl w p))
                                 \<mapsto> record_text (pl w p)))))"
    if s: "connstate (pl w p) = ePlaying" and d: "\<not> ci_find ''quit'' (directionset w)"
  proof -
    define w' where "w' = out p (prompt (pl w p))
       (upd p ClosePlayer
          (SendToAll (''Player '' @ playername (pl w p) @ '' has left the game.\<newline>'') (Some p) 0
             (log_line (''Player '' @ playername (pl w p) @ '' has left the game.'')
                (out p ''See you next time!\<newline>''
                   (upd p (\<lambda>q. q\<lparr>sock := NO_SOCKET\<rparr>)
                      (log_line (''Connection '' @ show_int (sock (pl w p)) @ '' closed'') w))))))"
    have r: "ProcessRead (Suc n) p (ReadBytes []) w = Some w'"
      unfolding w'_def by (rule ProcessRead_quit_playing [OF assms(1) assms(2) s d])
    have a: "length (playerlist w') = length (playerlist w)"
      unfolding w'_def by (simp add: length_out length_upd length_SendToAll log_line_fields)
    have b: "pl w' p = (pl w p)\<lparr>sock := NO_SOCKET, closing := True,
               outbuf := outbuf (pl w p) @ ''See you next time!\<newline>'' @ prompt (pl w p)\<rparr>"
      unfolding w'_def using assms(1)
      by (simp add: pl_out pl_upd length_out length_upd length_SendToAll log_line_fields pl_SendToAll
          sendToPlayer_def pl_log_line ClosePlayer_def)
    have c: "pl w' i = (if IsPlaying (pl w i)
                             then (pl w i)\<lparr>outbuf := outbuf (pl w i) @ ''Player '' @ playername (pl w p)
                                                       @ '' has left the game.\<newline>''\<rparr>
                             else pl w i)"
      if "i < length (playerlist w)" "i \<noteq> p" for i
      unfolding w'_def using assms(1) that
      by (simp add: pl_out pl_upd length_out length_upd length_SendToAll log_line_fields pl_SendToAll
          sendToPlayer_def pl_log_line)
    have e: "playerfiles w' = playerfiles w" "unwritable w' = unwritable w"
      unfolding w'_def by (simp_all add: out_fields upd_fields SendToAll_fields log_line_fields)
    have "closing (pl w' p)"
      unfolding b by simp
    then have f: "ProcessRead m p r w' = Some w'" for m r
      by (rule ProcessRead_closing)
    have p': "p < length (playerlist w')"
      using assms(1) a by simp
    have ip: "inactive (pl w' p)"
      unfolding b by (simp add: inactive_def)
    have "playerlist w' = take p (playerlist w') @ pl w' p # drop (Suc p) (playerlist w')"
      using p' by (simp add: pl_def id_take_nth_drop [symmetric])
    then have "filter inactive (playerlist w')
      = filter inactive (take p (playerlist w') @ pl w' p # drop (Suc p) (playerlist w'))"
      by simp
    with ip have g: "filter inactive (playerlist w')
                 = filter inactive (take p (playerlist w')) @ pl w' p
                     # filter inactive (drop (Suc p) (playerlist w'))"
      by simp
    have h: "save_on_delete v (pl w' p) = save_record (pl w p) v" for v
      unfolding b using s by (simp add: save_on_delete_def save_record_def record_text_def)
    have k: "\<exists>w'' deleted.
                  RemoveInactivePlayers wr k w' = (w'', deleted) \<and>
                  w'' = (foldl save_on_delete w' (filter inactive (playerlist w')))
                          \<lparr>playerlist := filter (\<lambda>q. \<not> inactive q) (playerlist w')\<rparr> \<and>
                  (\<forall>wr2 k2. RemoveInactivePlayers wr2 k2 w'' = (w'', [])) \<and>
                  ((\<forall>i < length (playerlist w). i \<noteq> p \<longrightarrow> \<not> inactive (pl w i)) \<longrightarrow>
                     deleted = [([], None)] \<and>
                     playerlist w'' = take p (playerlist w') @ drop (Suc p) (playerlist w') \<and>
                     playerfiles w''
                       = (if unwritable w (player_file (playername (pl w p))) then playerfiles w
                          else (playerfiles w)(player_file (playername (pl w p))
                                 \<mapsto> record_text (pl w p))))" for wr k
    proof -
      obtain w'' deleted where x: "RemoveInactivePlayers wr k w' = (w'', deleted)"
        by (cases "RemoveInactivePlayers wr k w'") auto
      have y: "w'' = (foldl save_on_delete w' (filter inactive (playerlist w')))
                          \<lparr>playerlist := filter (\<lambda>q. \<not> inactive q) (playerlist w')\<rparr>"
        using RemoveInactivePlayers_from_world [of wr k 0 w'] x
        by (simp add: RemoveInactivePlayers_def)
      have z: "RemoveInactivePlayers wr2 k2 w'' = (w'', [])" for wr2 k2
        using RemoveInactivePlayers_again [of wr2 k2 wr k w'] x by simp
      have o: "deleted = [([], None)] \<and>
                     playerlist w'' = take p (playerlist w') @ drop (Suc p) (playerlist w') \<and>
                     playerfiles w''
                       = (if unwritable w (player_file (playername (pl w p))) then playerfiles w
                          else (playerfiles w)(player_file (playername (pl w p))
                                 \<mapsto> record_text (pl w p)))"
        if others: "\<forall>i < length (playerlist w). i \<noteq> p \<longrightarrow> \<not> inactive (pl w i)"
      proof -
        have "\<not> inactive (pl w' i)" if "i < length (playerlist w')" "i \<noteq> p" for i
          using that others a c [of i] by (simp add: inactive_def Connected_def)
        then have oa: "\<forall>i < length (playerlist w'). i \<noteq> p \<longrightarrow> \<not> inactive (pl w' i)"
          by simp
        have sk: "sock (pl w' p) = NO_SOCKET" "connstate (pl w' p) = ePlaying"
          "playername (pl w' p) = playername (pl w p)" "record_text (pl w' p) = record_text (pl w p)"
          unfolding b using s by (simp_all add: record_text_def)
        from RemoveInactivePlayers_one [OF p' sk(1) sk(2) oa, of wr k] x
        have "w'' = (Save p w')\<lparr>playerlist := take p (playerlist w') @ drop (Suc p) (playerlist w')\<rparr>"
          "deleted = [([], None)]"
          by simp_all
        then show ?thesis
          by (simp add: Save_fields sk e)
      qed
      from x y z o show ?thesis
        by blast
    qed
    have b': "sock (pl w' p) = NO_SOCKET" "closing (pl w' p)"
      "outbuf (pl w' p) = outbuf (pl w p) @ ''See you next time!\<newline>'' @ prompt (pl w p)"
      unfolding b by simp_all
    have c': "\<forall>i < length (playerlist w). i \<noteq> p \<longrightarrow>
                  pl w' i = (if IsPlaying (pl w i)
                             then (pl w i)\<lparr>outbuf := outbuf (pl w i) @ ''Player '' @ playername (pl w p)
                                                       @ '' has left the game.\<newline>''\<rparr>
                             else pl w i)"
      using c by blast
    show ?thesis
      apply (rule exI [of _ w'])
      apply (intro conjI allI)
                apply (rule r)
               apply (rule a)
              apply (rule b')
             apply (rule b')
            apply (rule b')
           apply (rule c' [THEN spec])
          apply (rule e)
         apply (rule f)
        apply (rule g)
       apply (rule h)
      apply (rule k)
      done
  qed
  from 1 2 show ?thesis by blast
qed

text \<open>The theorem at work: Ann and Bob are playing, and the peer of Ann closes the
  connection. Bob is told once; the next \<open>RemoveInactivePlayers\<close> deletes the session of
  Ann without a call of \<open>write\<close> or \<open>close\<close>, and writes her player file.\<close>

theorem ProcessRead_results_witness:
  "map_option (\<lambda>w'. (sock (pl w' 0), closing (pl w' 0), outbuf (pl w' 0), outbuf (pl w' 1),
                     map playername (playerlist (fst (RemoveInactivePlayers (\<lambda>k. Written 512) 0 w'))),
                     snd (RemoveInactivePlayers (\<lambda>k. Written 512) 0 w'),
                     playerfiles (fst (RemoveInactivePlayers (\<lambda>k. Written 512) 0 w'))
                       (player_file ''Ann'')))
     (ProcessRead 1 0 (ReadBytes []) two_players_world)
   = Some (- 1, True, ''See you next time!\<newline>> '', ''Player Ann has left the game.\<newline>'',
           [''Bob''], [([], None)], Some ''secret\<newline>1000\<newline>\<newline>'')"
proof -
  have h: "0 < length (playerlist two_players_world)" "\<not> closing (pl two_players_world 0)"
    by code_simp+
  have g: "connstate (pl two_players_world 0) = ePlaying \<and> \<not> ci_find ''quit'' (directionset two_players_world)"
    by code_simp
  have v: "outbuf (pl two_players_world 0) = []" "prompt (pl two_players_world 0) = ''> ''"
    "playername (pl two_players_world 0) = ''Ann''" "IsPlaying (pl two_players_world 1)"
    "outbuf (pl two_players_world 1) = []" "(1::nat) < length (playerlist two_players_world)"
    "playername (pl two_players_world 1) = ''Bob''"
    "\<not> unwritable two_players_world (player_file ''Ann'')"
    "record_text (pl two_players_world 0) = ''secret\<newline>1000\<newline>\<newline>''"
    "length (playerlist two_players_world) = Suc (Suc 0)"
    "\<not> inactive (pl two_players_world (Suc 0))"
    by code_simp+
  have others: "\<forall>i < length (playerlist two_players_world). i \<noteq> 0 \<longrightarrow> \<not> inactive (pl two_players_world i)"
    using v(10,11) by (auto simp add: less_Suc_eq)
  from ProcessRead_results [OF h, of 0] g obtain w' where
    r: "ProcessRead (Suc 0) 0 (ReadBytes []) two_players_world = Some w'"
    and l: "length (playerlist w') = length (playerlist two_players_world)"
    and a: "sock (pl w' 0) = NO_SOCKET" "closing (pl w' 0)"
      "outbuf (pl w' 0) = outbuf (pl two_players_world 0) @ ''See you next time!\<newline>''
         @ prompt (pl two_players_world 0)"
    and b: "\<forall>i < length (playerlist two_players_world). i \<noteq> 0 \<longrightarrow>
                  pl w' i = (if IsPlaying (pl two_players_world i)
                             then (pl two_players_world i)\<lparr>outbuf := outbuf (pl two_players_world i)
                                    @ ''Player '' @ playername (pl two_players_world 0)
                                    @ '' has left the game.\<newline>''\<rparr>
                             else pl two_players_world i)"
    and rip: "\<forall>wr k. \<exists>w'' deleted.
                  RemoveInactivePlayers wr k w' = (w'', deleted) \<and>
                  w'' = (foldl save_on_delete w' (filter inactive (playerlist w')))
                          \<lparr>playerlist := filter (\<lambda>q. \<not> inactive q) (playerlist w')\<rparr> \<and>
                  (\<forall>wr2 k2. RemoveInactivePlayers wr2 k2 w'' = (w'', [])) \<and>
                  ((\<forall>i < length (playerlist two_players_world). i \<noteq> 0 \<longrightarrow>
                       \<not> inactive (pl two_players_world i)) \<longrightarrow>
                     deleted = [([], None)] \<and>
                     playerlist w'' = take 0 (playerlist w') @ drop (Suc 0) (playerlist w') \<and>
                     playerfiles w''
                       = (if unwritable two_players_world (player_file (playername (pl two_players_world 0)))
                          then playerfiles two_players_world
                          else (playerfiles two_players_world)
                                 (player_file (playername (pl two_players_world 0))
                                 \<mapsto> record_text (pl two_players_world 0))))"
    by blast
  from rip others obtain w'' deleted where
    x: "RemoveInactivePlayers (\<lambda>k. Written 512) 0 w' = (w'', deleted)"
    and y: "deleted = [([], None)]"
      "playerlist w'' = take 0 (playerlist w') @ drop (Suc 0) (playerlist w')"
      "playerfiles w''
         = (if unwritable two_players_world (player_file (playername (pl two_players_world 0)))
            then playerfiles two_players_world
            else (playerfiles two_players_world)
                   (player_file (playername (pl two_players_world 0))
                   \<mapsto> record_text (pl two_players_world 0)))"
    by blast
  from b v(6) have "pl w' 1 = (if IsPlaying (pl two_players_world 1)
                             then (pl two_players_world 1)\<lparr>outbuf := outbuf (pl two_players_world 1)
                                    @ ''Player '' @ playername (pl two_players_world 0)
                                    @ '' has left the game.\<newline>''\<rparr>
                             else pl two_players_world 1)"
    by simp
  with v have o: "outbuf (pl w' 1) = ''Player Ann has left the game.\<newline>''"
    "playername (pl w' 1) = ''Bob''"
    by simp_all
  have dr: "drop (Suc 0) xs = [xs ! Suc 0]" if "length xs = Suc (Suc 0)" for xs :: "tPlayer list"
    using that by (cases xs) (auto simp add: length_Suc_conv)
  from l v(10) have "drop (Suc 0) (playerlist w') = [pl w' (Suc 0)]"
    by (simp add: dr pl_def)
  with y(2) o(2) have n: "map playername (playerlist w'') = [''Bob'']"
    by simp
  from y(3) v(3,8,9) have fl: "playerfiles w'' (player_file ''Ann'') = Some ''secret\<newline>1000\<newline>\<newline>''"
    by simp
  from r a v o x y(1) n fl show ?thesis
    by (simp add: NO_SOCKET_def)
qed

text \<open>A read that fails with another error than would-block: the socket of Ann is still
  open, she is not closing, and nobody has been told anything.\<close>

theorem ProcessRead_error_counterexample:
  "map_option (\<lambda>w'. (sock (pl w' 0), closing (pl w' 0), outbuf (pl w' 0), outbuf (pl w' 1)))
     (ProcessRead 1 0 (ReadError False) two_players_world)
   = Some (5, False, [], [])"
  by code_simp

end
